theory Spec2Isabelle
  imports Main "HOL-Library.Sublist"
begin

section \<open>Exceptions, values and driver events\<close>

text \<open>
  The exception classes that the \<^verbatim>\<open>except\<close> clauses of \<^verbatim>\<open>connection.py\<close> tell apart.
  \<open>PoolError\<close> is \<^verbatim>\<open>psycopg2.pool.PoolError\<close>; the next four are the psycopg2 classes of
  the same name (siblings, none a subclass of another); \<open>TypeError\<close> and \<open>ValueError\<close> are
  the Python built-ins; \<open>OtherError\<close> stands for every other subclass of \<^verbatim>\<open>Exception\<close>
  (\<^verbatim>\<open>psycopg2.InternalError\<close>, \<^verbatim>\<open>psycopg2.InterfaceError\<close>, \<^verbatim>\<open>IndexError\<close>, ...);
  \<open>PyException\<close> is an instance of \<^verbatim>\<open>Exception\<close> itself, which is what every
  \<^verbatim>\<open>raise Exception(...)\<close> of the source creates. The argument is the message.
  Exceptions outside \<^verbatim>\<open>Exception\<close> (\<^verbatim>\<open>KeyboardInterrupt\<close>, \<^verbatim>\<open>SystemExit\<close>) are
  not modelled.
\<close>

datatype exn =
    PoolError string
  | OperationalError string
  | ProgrammingError string
  | IntegrityError string
  | DataError string
  | TypeError string
  | ValueError string
  | OtherError string
  | PyException string

text \<open>\<^verbatim>\<open>str(e)\<close>: the message of an exception.\<close>

fun str :: "exn \<Rightarrow> string" where
  "str (PoolError m) = m"
| "str (OperationalError m) = m"
| "str (ProgrammingError m) = m"
| "str (IntegrityError m) = m"
| "str (DataError m) = m"
| "str (TypeError m) = m"
| "str (ValueError m) = m"
| "str (OtherError m) = m"
| "str (PyException m) = m"

text \<open>Column values of a result row, with Python's truthiness.\<close>

datatype val = VNone | VBool bool | VInt int | VStr string

fun truthy :: "val \<Rightarrow> bool" where
  "truthy VNone = False"
| "truthy (VBool b) = b"
| "truthy (VInt i) = (i \<noteq> 0)"
| "truthy (VStr s) = (s \<noteq> [])"

type_synonym row = "val list"
type_synonym params = "val list"
type_synonym conn = nat

text \<open>
  One event per call that the code makes on the pool, on the connection or on the cursor.
  The trace of a call of \<open>execute_query\<close>, \<open>execute_update\<close> or \<open>execute_many\<close> is the
  list of these calls in the order in which they are made, whether they return or raise.
\<close>

datatype event =
    Getconn
  | Cursor conn
  | Execute conn string "params option"
  | Executemany conn string "params list"
  | Fetchall conn
  | Close conn
  | Commit conn
  | Rollback conn
  | Putconn conn

text \<open>
  The behaviour of psycopg2 during one call: what each method returns or raises. Every
  method is called at most once in one call of the three operations, so one outcome per
  method describes the driver completely. \<open>cursor_rowcount\<close> is the attribute
  \<^verbatim>\<open>cursor.rowcount\<close>, which is read and cannot raise.
\<close>

record driver =
  on_getconn :: "exn + conn"
  on_cursor :: "exn + unit"
  on_execute :: "exn + unit"
  on_executemany :: "exn + unit"
  on_fetchall :: "exn + row list"
  on_close :: "exn + unit"
  on_commit :: "exn + unit"
  cursor_rowcount :: int
  on_rollback :: "exn + unit"
  on_putconn :: "exn + unit"

section \<open>Sequencing calls that may raise\<close>

type_synonym 'a outcome = "(exn + 'a) \<times> event list"

definition call :: "event \<Rightarrow> exn + 'a \<Rightarrow> 'a outcome" where
  "call ev r = (r, [ev])"

definition and_then :: "'a outcome \<Rightarrow> ('a \<Rightarrow> 'b outcome) \<Rightarrow> 'b outcome" where
  "and_then m f =
     (case m of
        (Inl e, t) \<Rightarrow> (Inl e, t)
      | (Inr x, t) \<Rightarrow> (case f x of (r, t') \<Rightarrow> (r, t @ t')))"

text \<open>
  An \<^verbatim>\<open>except\<close> clause of the three operations is described by a pair: whether it rolls
  back (\<^verbatim>\<open>if connection: connection.rollback()\<close>) and the exception it raises. \<open>None\<close>
  means that no clause matches, and the exception propagates as it is.
  If the rollback itself raises, that exception propagates instead.
\<close>

definition handle :: "driver \<Rightarrow> conn option \<Rightarrow> (bool \<times> exn) option \<Rightarrow> exn \<Rightarrow> 'a outcome" where
  "handle d connection clause e =
     (case clause of
        None \<Rightarrow> (Inl e, [])
      | Some (rb, e') \<Rightarrow>
          (case connection of
             None \<Rightarrow> (Inl e', [])
           | Some c \<Rightarrow>
               if rb then and_then (call (Rollback c) (on_rollback d)) (\<lambda>_. (Inl e', []))
               else (Inl e', [])))"

text \<open>
  The \<^verbatim>\<open>finally\<close> block, the same in the three operations:
  \<^verbatim>\<open>if connection: self.pool.putconn(connection)\<close>. A connection object is always
  truthy, so the test is whether the variable was assigned. An exception of
  \<^verbatim>\<open>putconn\<close> replaces the result or the exception on its way out.
\<close>

definition release :: "driver \<Rightarrow> conn option \<Rightarrow> 'a outcome \<Rightarrow> 'a outcome" where
  "release d connection out =
     (case connection of
        None \<Rightarrow> out
      | Some c \<Rightarrow>
          (case on_putconn d of
             Inl e \<Rightarrow> (Inl e, snd out @ [Putconn c])
           | Inr _ \<Rightarrow> (fst out, snd out @ [Putconn c])))"

text \<open>
  \<^verbatim>\<open>try: body except ...: clauses finally: release\<close>. The body gives the value of the
  variable \<^verbatim>\<open>connection\<close> when it ends, with its outcome.
\<close>

definition try_except_finally ::
  "driver \<Rightarrow> (exn \<Rightarrow> (bool \<times> exn) option) \<Rightarrow> conn option \<times> 'a outcome \<Rightarrow> 'a outcome" where
  "try_except_finally d clauses body =
     (case body of
        (connection, (Inr v, t)) \<Rightarrow> release d connection (Inr v, t)
      | (connection, (Inl e, t)) \<Rightarrow>
          release d connection
            (case handle d connection (clauses e) e of (r, t') \<Rightarrow> (r, t @ t')))"

section \<open>connection.py\<close>

subsection \<open>\<^verbatim>\<open>_get_connection_and_cursor\<close>\<close>

fun acquire_except :: "exn \<Rightarrow> exn" where
  "acquire_except (PoolError m) = PyException ''Connection pool exhausted''"
| "acquire_except (OperationalError m) =
     PyException ''Database initial connection failed, try again''"
| "acquire_except e = e"

definition get_connection_and_cursor :: "driver \<Rightarrow> conn outcome" where
  "get_connection_and_cursor d =
     (case and_then (call Getconn (on_getconn d)) (\<lambda>c.
           and_then (call (Cursor c) (on_cursor d)) (\<lambda>_. (Inr c, []))) of
        (Inl e, t) \<Rightarrow> (Inl (acquire_except e), t)
      | (Inr c, t) \<Rightarrow> (Inr c, t))"

text \<open>
  The first statement of each \<^verbatim>\<open>try\<close> block is
  \<^verbatim>\<open>connection,cursor = self._get_connection_and_cursor()\<close>: the variable
  \<^verbatim>\<open>connection\<close> is assigned only if the helper returns.
\<close>

definition with_connection :: "driver \<Rightarrow> (conn \<Rightarrow> 'a outcome) \<Rightarrow> conn option \<times> 'a outcome" where
  "with_connection d rest =
     (case get_connection_and_cursor d of
        (Inl e, t) \<Rightarrow> (None, (Inl e, t))
      | (Inr c, t) \<Rightarrow> (Some c, and_then (Inr c, t) rest))"

subsection \<open>\<^verbatim>\<open>execute_query\<close>\<close>

definition query_body :: "driver \<Rightarrow> string \<Rightarrow> params option \<Rightarrow> conn option \<times> row list outcome" where
  "query_body d query ps =
     with_connection d (\<lambda>c.
       and_then (call (Execute c query ps) (on_execute d)) (\<lambda>_.
       and_then (call (Fetchall c) (on_fetchall d)) (\<lambda>result.
       and_then (call (Close c) (on_close d)) (\<lambda>_.
       (Inr result, [])))))"

fun query_except :: "exn \<Rightarrow> (bool \<times> exn) option" where
  "query_except (PoolError m) = Some (False, PyException ''Connection pool exhausted'')"
| "query_except (OperationalError m) =
     Some (False, PyException ''Database connection failed during query, try again'')"
| "query_except (ProgrammingError m) = Some (False, PyException (''Query error: '' @ m))"
| "query_except (IntegrityError m) =
     Some (False, PyException (''Data Constraint violation: '' @ m))"
| "query_except e = Some (False, PyException (''Unexpected database error: '' @ str e))"

definition execute_query :: "driver \<Rightarrow> string \<Rightarrow> params option \<Rightarrow> row list outcome" where
  "execute_query d query ps = try_except_finally d query_except (query_body d query ps)"

subsection \<open>\<^verbatim>\<open>execute_update\<close>\<close>

definition update_body :: "driver \<Rightarrow> string \<Rightarrow> params option \<Rightarrow> conn option \<times> int outcome" where
  "update_body d query ps =
     with_connection d (\<lambda>c.
       and_then (call (Execute c query ps) (on_execute d)) (\<lambda>_.
       and_then (call (Commit c) (on_commit d)) (\<lambda>_.
       and_then (call (Close c) (on_close d)) (\<lambda>_.
       (Inr (cursor_rowcount d), [])))))"

fun update_except :: "exn \<Rightarrow> (bool \<times> exn) option" where
  "update_except (PoolError m) = Some (False, PyException ''Connection pool exhausted'')"
| "update_except (OperationalError m) =
     Some (True, PyException ''Database connection failed during update, try again'')"
| "update_except (IntegrityError m) =
     Some (True, PyException (''Data constraint violation: '' @ m))"
| "update_except (DataError m) = Some (True, PyException (''Invalid data: '' @ m))"
| "update_except (ProgrammingError m) = Some (True, PyException (''Query error: '' @ m))"
| "update_except e = None"

definition execute_update :: "driver \<Rightarrow> string \<Rightarrow> params option \<Rightarrow> int outcome" where
  "execute_update d query ps = try_except_finally d update_except (update_body d query ps)"

subsection \<open>\<^verbatim>\<open>execute_many\<close>\<close>

text \<open>\<^verbatim>\<open>if not params_list: raise ValueError(...)\<close> is inside the \<^verbatim>\<open>try\<close>, before the
  connection is taken.\<close>

definition many_body :: "driver \<Rightarrow> string \<Rightarrow> params list \<Rightarrow> conn option \<times> int outcome" where
  "many_body d query params_list =
     (if params_list = [] then (None, (Inl (ValueError ''params_list cannot be empty''), []))
      else
        with_connection d (\<lambda>c.
          and_then (call (Executemany c query params_list) (on_executemany d)) (\<lambda>_.
          and_then (call (Commit c) (on_commit d)) (\<lambda>_.
          and_then (call (Close c) (on_close d)) (\<lambda>_.
          (Inr (cursor_rowcount d), []))))))"

fun many_except :: "exn \<Rightarrow> (bool \<times> exn) option" where
  "many_except (PoolError m) = Some (False, PyException ''Connection pool exhausted'')"
| "many_except (OperationalError m) =
     Some (True, PyException (''Database connection failed: '' @ m))"
| "many_except (IntegrityError m) =
     Some (True, PyException (''Batch operation has failed - constraint violation: '' @ m))"
| "many_except (DataError m) =
     Some (True, PyException (''Batch operation has failed - invalid data: '' @ m))"
| "many_except (ProgrammingError m) = Some (True, PyException (''Query error: '' @ m))"
| "many_except (TypeError m) = Some (True, PyException (''Invalid parameters format: '' @ m))"
| "many_except (ValueError m) = Some (True, PyException (''Invalid parameters format: '' @ m))"
| "many_except e = None"

definition execute_many :: "driver \<Rightarrow> string \<Rightarrow> params list \<Rightarrow> int outcome" where
  "execute_many d query params_list =
     try_except_finally d many_except (many_body d query params_list)"

subsection \<open>The error kinds\<close>

text \<open>
  Every \<^verbatim>\<open>raise\<close> of \<^verbatim>\<open>connection.py\<close> creates a plain \<^verbatim>\<open>Exception\<close>: the kind of
  error is carried by the message only. \<open>kind_of_message\<close> reads it back from the
  message texts of the source: the fixed messages and the prefixes that are followed by
  the text of the original exception. An exception of another class, or a plain one with
  another message, has no kind.
\<close>

datatype ErrorKind =
    PoolExhausted
  | ConnectionFailure
  | QueryError
  | ConstraintViolation
  | InvalidData
  | InvalidParameters
  | Unexpected

definition kind_of_message :: "string \<Rightarrow> ErrorKind option" where
  "kind_of_message m =
     (if m = ''Connection pool exhausted'' then Some PoolExhausted
      else if m = ''Database initial connection failed, try again'' then Some ConnectionFailure
      else if m = ''Database connection failed during query, try again''
        then Some ConnectionFailure
      else if m = ''Database connection failed during update, try again''
        then Some ConnectionFailure
      else if prefix ''Database connection failed: '' m then Some ConnectionFailure
      else if prefix ''Query error: '' m then Some QueryError
      else if prefix ''Data Constraint violation: '' m then Some ConstraintViolation
      else if prefix ''Data constraint violation: '' m then Some ConstraintViolation
      else if prefix ''Batch operation has failed - constraint violation: '' m
        then Some ConstraintViolation
      else if prefix ''Invalid data: '' m then Some InvalidData
      else if prefix ''Batch operation has failed - invalid data: '' m then Some InvalidData
      else if prefix ''Invalid parameters format: '' m then Some InvalidParameters
      else if prefix ''Unexpected database error: '' m then Some Unexpected
      else None)"

fun error_kind :: "exn \<Rightarrow> ErrorKind option" where
  "error_kind (PyException m) = kind_of_message m"
| "error_kind e = None"

subsection \<open>Drivers used as concrete inputs\<close>

text \<open>A driver on which every call succeeds: connection 7, two result rows, row count 5.\<close>

definition ok_driver :: driver where
  "ok_driver =
     \<lparr>on_getconn = Inr 7, on_cursor = Inr (), on_execute = Inr (), on_executemany = Inr (),
      on_fetchall = Inr [[VStr ''result1''], [VStr ''result2'']], on_close = Inr (),
      on_commit = Inr (), cursor_rowcount = 5, on_rollback = Inr (), on_putconn = Inr ()\<rparr>"

text \<open>
  \<^verbatim>\<open>connection.cursor()\<close> raises \<^verbatim>\<open>psycopg2.InterfaceError\<close> (the pool handed out a
  connection that the server had closed); everything else would succeed.
\<close>

definition cursor_fails_driver :: driver where
  "cursor_fails_driver =
     ok_driver\<lparr>on_cursor := Inl (OtherError ''connection already closed'')\<rparr>"

text \<open>The statement fails with \<^verbatim>\<open>psycopg2.InternalError\<close>, a class that no clause of
  \<open>execute_update\<close> or \<open>execute_many\<close> names.\<close>

definition internal_error_driver :: driver where
  "internal_error_driver =
     ok_driver\<lparr>on_execute := Inl (OtherError ''out of memory''),
                on_executemany := Inl (OtherError ''out of memory'')\<rparr>"

text \<open>The failures of the repository's tests: a duplicate key for \<^verbatim>\<open>execute\<close>, an
  invalid value for \<^verbatim>\<open>executemany\<close>.\<close>

definition integrity_driver :: driver where
  "integrity_driver =
     ok_driver\<lparr>on_execute := Inl (IntegrityError ''Duplicate key''),
                on_executemany := Inl (DataError ''Invalid data type'')\<rparr>"

definition pool_exhausted_driver :: driver where
  "pool_exhausted_driver =
     ok_driver\<lparr>on_getconn := Inl (PoolError ''connection pool exhausted'')\<rparr>"

text \<open>The connection drops while the statement runs, with the driver's text \<open>m\<close>.\<close>

definition connection_lost_driver :: "string \<Rightarrow> driver" where
  "connection_lost_driver m = ok_driver\<lparr>on_execute := Inl (OperationalError m)\<rparr>"

text \<open>A duplicate key, and then the rollback of the handler raises.\<close>

definition rollback_fails_driver :: driver where
  "rollback_fails_driver =
     ok_driver\<lparr>on_execute := Inl (IntegrityError ''Duplicate key''),
                on_rollback := Inl (OperationalError ''server closed the connection'')\<rparr>"

text \<open>A duplicate key, and then \<^verbatim>\<open>putconn\<close> raises in the \<^verbatim>\<open>finally\<close> block.\<close>

definition putconn_fails_driver :: driver where
  "putconn_fails_driver =
     ok_driver\<lparr>on_execute := Inl (IntegrityError ''Duplicate key''),
                on_putconn := Inl (PoolError ''trying to put unkeyed connection'')\<rparr>"

section \<open>setup.py\<close>

subsection \<open>The statements and the database handle\<close>

text \<open>
  The SQL texts that \<^verbatim>\<open>DatabaseSetup\<close> sends, one constructor per text of the source:
  \<^item> \<open>TableExistsQuery\<close>: \<^verbatim>\<open>SELECT EXISTS (SELECT 1 FROM information_schema.tables WHERE
    table_schema = 'public' AND table_name = %s)\<close>, with the parameters \<^verbatim>\<open>(table_name,)\<close>;
  \<^item> \<open>ConstraintExistsQuery\<close>: \<^verbatim>\<open>SELECT EXISTS (SELECT 1 FROM
    information_schema.table_constraints WHERE table_schema = 'public' AND table_name = %s
    AND constraint_name = %s)\<close>, with \<^verbatim>\<open>(table_name, constraint_name)\<close>;
  \<^item> \<open>CountQuery table\<close>: \<^verbatim>\<open>SELECT COUNT(*) FROM {table}\<close>;
  \<^item> \<open>VectorInstalledQuery\<close>: \<^verbatim>\<open>SELECT EXISTS (SELECT 1 FROM pg_extension WHERE
    extname = 'vector')\<close>;
  \<^item> \<open>CreateExtension\<close>: \<^verbatim>\<open>CREATE EXTENSION IF NOT EXISTS vector\<close>;
  \<^item> \<open>CreateTable table\<close>: the \<^verbatim>\<open>CREATE TABLE\<close> statement of that table (five fixed
    texts; the one of \<^verbatim>\<open>embeddings\<close> has a column of type \<^verbatim>\<open>vector(1536)\<close>);
  \<^item> \<open>AddForeignKey table constraint_name column\<close>: \<^verbatim>\<open>ALTER TABLE {table} ADD CONSTRAINT
    {constraint_name} FOREIGN KEY ({column}) REFERENCES analysis_registry(analysis_id)
    ON DELETE CASCADE\<close>;
  \<^item> \<open>CreateIndex index_name table_name column_name\<close>: \<^verbatim>\<open>CREATE INDEX IF NOT EXISTS
    {index_name} ON {table_name}({column_name})\<close>;
  \<^item> \<open>CreateVectorIndex\<close>: \<^verbatim>\<open>CREATE INDEX IF NOT EXISTS idx_embeddings_vector ON
    embeddings USING ivfflat (embedding vector_cosine_ops) WITH (lists = 100)\<close>;
  \<^item> \<open>DropTable table\<close>: \<^verbatim>\<open>DROP TABLE IF EXISTS {table} CASCADE\<close>.
\<close>

datatype sql =
    TableExistsQuery
  | ConstraintExistsQuery
  | CountQuery string
  | VectorInstalledQuery
  | CreateExtension
  | CreateTable string
  | AddForeignKey string string string
  | CreateIndex string string string
  | CreateVectorIndex
  | DropTable string

text \<open>
  \<^verbatim>\<open>DatabaseSetup\<close> is given its database handle (\<^verbatim>\<open>self.db\<close>) and uses two of its
  methods. The handle is a parameter of the model: on a database in state \<open>s\<close>,
  \<open>db_execute_query\<close> gives the rows or the exception of a read, which leaves the state as
  it is, and \<open>db_execute_update\<close> gives the row count or the exception of a write with
  the state after it.
\<close>

record 'db database =
  db_execute_query :: "'db \<Rightarrow> sql \<Rightarrow> params option \<Rightarrow> exn + row list"
  db_execute_update :: "'db \<Rightarrow> sql \<Rightarrow> params option \<Rightarrow> (exn + int) \<times> 'db"

text \<open>\<^verbatim>\<open>result[0][0]\<close>, which raises \<^verbatim>\<open>IndexError\<close> on an empty result or an empty row.\<close>

definition first_cell :: "row list \<Rightarrow> exn + val" where
  "first_cell result =
     (case result of
        [] \<Rightarrow> Inl (OtherError ''list index out of range'')
      | r # _ \<Rightarrow>
          (case r of
             [] \<Rightarrow> Inl (OtherError ''tuple index out of range'')
           | v # _ \<Rightarrow> Inr v))"

text \<open>\<^verbatim>\<open>str.lower()\<close>, on ASCII letters.\<close>

definition lower_char :: "char \<Rightarrow> char" where
  "lower_char ch =
     (if 65 \<le> (of_char ch :: nat) \<and> (of_char ch :: nat) \<le> 90
      then char_of ((of_char ch :: nat) + 32) else ch)"

definition lower :: "string \<Rightarrow> string" where
  "lower s = map lower_char s"

text \<open>\<^verbatim>\<open>"already exists" in str(e).lower()\<close>\<close>

definition already_exists :: "exn \<Rightarrow> bool" where
  "already_exists e = sublist ''already exists'' (lower (str e))"

text \<open>Running the next step unless the previous one raised.\<close>

definition then_do ::
  "(exn + unit) \<times> 'db \<Rightarrow> ('db \<Rightarrow> (exn + unit) \<times> 'db) \<Rightarrow> (exn + unit) \<times> 'db" where
  "then_do m f = (case m of (Inl e, s) \<Rightarrow> (Inl e, s) | (Inr _, s) \<Rightarrow> f s)"

subsection \<open>The existence checks\<close>

definition table_exists :: "'db database \<Rightarrow> 'db \<Rightarrow> string \<Rightarrow> exn + val" where
  "table_exists db s table_name =
     (case db_execute_query db s TableExistsQuery (Some [VStr table_name]) of
        Inl e \<Rightarrow> Inl e
      | Inr result \<Rightarrow> first_cell result)"

definition constraint_exists :: "'db database \<Rightarrow> 'db \<Rightarrow> string \<Rightarrow> string \<Rightarrow> exn + val" where
  "constraint_exists db s table_name constraint_name =
     (case db_execute_query db s ConstraintExistsQuery
             (Some [VStr table_name, VStr constraint_name]) of
        Inl e \<Rightarrow> Inl e
      | Inr result \<Rightarrow> first_cell result)"

subsection \<open>The creation steps\<close>

text \<open>The progress messages that the steps print are not part of the model.\<close>

definition setup_pgvector :: "'db database \<Rightarrow> 'db \<Rightarrow> (exn + unit) \<times> 'db" where
  "setup_pgvector db s =
     (case db_execute_update db s CreateExtension None of
        (Inr _, s') \<Rightarrow> (Inr (), s')
      | (Inl e, s') \<Rightarrow> if already_exists e then (Inr (), s') else (Inl e, s'))"

text \<open>
  The five \<^verbatim>\<open>_create_...\<close> methods have one shape:
  \<^verbatim>\<open>if not self._table_exists(name): self.db.execute_update(CREATE TABLE ...)\<close>,
  with no \<^verbatim>\<open>try\<close>: an exception of the check or of the statement propagates.
\<close>

definition create_table :: "'db database \<Rightarrow> string \<Rightarrow> 'db \<Rightarrow> (exn + unit) \<times> 'db" where
  "create_table db name s =
     (case table_exists db s name of
        Inl e \<Rightarrow> (Inl e, s)
      | Inr v \<Rightarrow>
          if \<not> truthy v then
            (case db_execute_update db s (CreateTable name) None of
               (Inr _, s') \<Rightarrow> (Inr (), s')
             | (Inl e, s') \<Rightarrow> (Inl e, s'))
          else (Inr (), s))"

definition create_analysis_registry :: "'db database \<Rightarrow> 'db \<Rightarrow> (exn + unit) \<times> 'db" where
  "create_analysis_registry db s = create_table db ''analysis_registry'' s"

definition create_stg_rejects :: "'db database \<Rightarrow> 'db \<Rightarrow> (exn + unit) \<times> 'db" where
  "create_stg_rejects db s = create_table db ''stg_rejects'' s"

definition create_insights_cache :: "'db database \<Rightarrow> 'db \<Rightarrow> (exn + unit) \<times> 'db" where
  "create_insights_cache db s = create_table db ''insights_cache'' s"

definition create_query_history :: "'db database \<Rightarrow> 'db \<Rightarrow> (exn + unit) \<times> 'db" where
  "create_query_history db s = create_table db ''query_history'' s"

definition create_embeddings :: "'db database \<Rightarrow> 'db \<Rightarrow> (exn + unit) \<times> 'db" where
  "create_embeddings db s = create_table db ''embeddings'' s"

text \<open>The list \<^verbatim>\<open>constraints\<close> of \<^verbatim>\<open>_add_foreign_keys\<close>: table, column, constraint name.\<close>

definition foreign_keys :: "(string \<times> string \<times> string) list" where
  "foreign_keys =
     [(''insights_cache'', ''analysis_id'', ''fk_insights_analysis''),
      (''query_history'', ''analysis_id'', ''fk_query_analysis''),
      (''embeddings'', ''analysis_id'', ''fk_embeddings_analysis'')]"

fun add_foreign_keys_loop ::
  "'db database \<Rightarrow> (string \<times> string \<times> string) list \<Rightarrow> 'db \<Rightarrow> (exn + unit) \<times> 'db" where
  "add_foreign_keys_loop db [] s = (Inr (), s)"
| "add_foreign_keys_loop db ((table, column, constraint_name) # rest) s =
     (case constraint_exists db s table constraint_name of
        Inl e \<Rightarrow> (Inl e, s)
      | Inr v \<Rightarrow>
          if \<not> truthy v then
            (case db_execute_update db s (AddForeignKey table constraint_name column) None of
               (Inr _, s') \<Rightarrow> add_foreign_keys_loop db rest s'
             | (Inl e, s') \<Rightarrow>
                 if already_exists e then add_foreign_keys_loop db rest s' else (Inl e, s'))
          else add_foreign_keys_loop db rest s)"

definition add_foreign_keys :: "'db database \<Rightarrow> 'db \<Rightarrow> (exn + unit) \<times> 'db" where
  "add_foreign_keys db s = add_foreign_keys_loop db foreign_keys s"

text \<open>The list \<^verbatim>\<open>indexes\<close> of \<^verbatim>\<open>_create_indexes\<close>: index name, table, column.\<close>

definition plain_indexes :: "(string \<times> string \<times> string) list" where
  "plain_indexes =
     [(''idx_analysis_registry_session'', ''analysis_registry'', ''session_id''),
      (''idx_analysis_registry_status'', ''analysis_registry'', ''status''),
      (''idx_stg_rejects_source'', ''stg_rejects'', ''source_name''),
      (''idx_stg_rejects_timestamp'', ''stg_rejects'', ''rejected_at''),
      (''idx_insights_cache_analysis'', ''insights_cache'', ''analysis_id''),
      (''idx_insights_cache_type'', ''insights_cache'', ''insight_type''),
      (''idx_query_history_analysis'', ''query_history'', ''analysis_id''),
      (''idx_embeddings_analysis'', ''embeddings'', ''analysis_id''),
      (''idx_embeddings_type'', ''embeddings'', ''content_type'')]"

text \<open>
  Every statement of \<^verbatim>\<open>_create_indexes\<close> is inside \<^verbatim>\<open>try ... except Exception\<close> whose
  branches only print: an exception is dropped and the next statement runs.
\<close>

fun create_indexes_loop :: "'db database \<Rightarrow> (string \<times> string \<times> string) list \<Rightarrow> 'db \<Rightarrow> 'db" where
  "create_indexes_loop db [] s = s"
| "create_indexes_loop db ((index_name, table_name, column_name) # rest) s =
     create_indexes_loop db rest
       (snd (db_execute_update db s (CreateIndex index_name table_name column_name) None))"

definition create_indexes :: "'db database \<Rightarrow> 'db \<Rightarrow> (exn + unit) \<times> 'db" where
  "create_indexes db s =
     (Inr (), snd (db_execute_update db (create_indexes_loop db plain_indexes s)
                     CreateVectorIndex None))"

subsection \<open>\<^verbatim>\<open>_drop_all_tables\<close> and \<^verbatim>\<open>setup_all\<close>\<close>

text \<open>\<open>response\<close> is what the user types at the prompt of \<^verbatim>\<open>input\<close>. An exception of a
  \<^verbatim>\<open>DROP TABLE\<close> is printed and dropped.\<close>

fun drop_tables_loop :: "'db database \<Rightarrow> string list \<Rightarrow> 'db \<Rightarrow> 'db" where
  "drop_tables_loop db [] s = s"
| "drop_tables_loop db (table # rest) s =
     drop_tables_loop db rest (snd (db_execute_update db s (DropTable table) None))"

definition drop_all_tables :: "'db database \<Rightarrow> string \<Rightarrow> 'db \<Rightarrow> 'db" where
  "drop_all_tables db response s =
     (if lower response \<noteq> ''yes'' then s
      else drop_tables_loop db
             [''embeddings'', ''query_history'', ''insights_cache'', ''stg_rejects'',
              ''analysis_registry''] s)"

definition setup_all :: "'db database \<Rightarrow> bool \<Rightarrow> string \<Rightarrow> 'db \<Rightarrow> (exn + unit) \<times> 'db" where
  "setup_all db drop_existing response s =
     then_do (setup_pgvector db (if drop_existing then drop_all_tables db response s else s))
       (\<lambda>s. then_do (create_analysis_registry db s)
       (\<lambda>s. then_do (create_stg_rejects db s)
       (\<lambda>s. then_do (create_insights_cache db s)
       (\<lambda>s. then_do (create_query_history db s)
       (\<lambda>s. then_do (create_embeddings db s)
       (\<lambda>s. then_do (add_foreign_keys db s)
       (\<lambda>s. create_indexes db s)))))))"

subsection \<open>\<^verbatim>\<open>verify_setup\<close>\<close>

text \<open>The lines that \<^verbatim>\<open>verify_setup\<close> prints, without their wording.\<close>

datatype report_line =
    TableOk string val
  | TableUnreadable string exn
  | TableNotFound string
  | VectorInstalled
  | VectorNotInstalled
  | VectorCheckFailed exn

definition required_tables :: "string list" where
  "required_tables =
     [''analysis_registry'', ''stg_rejects'', ''insights_cache'', ''query_history'',
      ''embeddings'']"

text \<open>The \<^verbatim>\<open>try\<close> block of the loop: the count query, then \<^verbatim>\<open>count[0][0]\<close> in the
  printed line.\<close>

definition count_rows :: "'db database \<Rightarrow> 'db \<Rightarrow> string \<Rightarrow> exn + val" where
  "count_rows db s table =
     (case db_execute_query db s (CountQuery table) None of
        Inl e \<Rightarrow> Inl e
      | Inr count \<Rightarrow> first_cell count)"

definition add_line :: "report_line \<Rightarrow> (exn + bool) \<times> report_line list \<Rightarrow>
    (exn + bool) \<times> report_line list" where
  "add_line l m = (fst m, l # snd m)"

text \<open>
  The loop over \<^verbatim>\<open>required_tables\<close>, with the variable \<^verbatim>\<open>all_good\<close>. The call of
  \<^verbatim>\<open>_table_exists\<close> is outside the \<^verbatim>\<open>try\<close>: its exception leaves \<^verbatim>\<open>verify_setup\<close>.
\<close>

fun verify_tables ::
  "'db database \<Rightarrow> 'db \<Rightarrow> string list \<Rightarrow> bool \<Rightarrow> (exn + bool) \<times> report_line list" where
  "verify_tables db s [] all_good = (Inr all_good, [])"
| "verify_tables db s (table # rest) all_good =
     (case table_exists db s table of
        Inl e \<Rightarrow> (Inl e, [])
      | Inr v \<Rightarrow>
          if truthy v then
            (case count_rows db s table of
               Inr n \<Rightarrow> add_line (TableOk table n) (verify_tables db s rest all_good)
             | Inl e \<Rightarrow> add_line (TableUnreadable table e) (verify_tables db s rest False))
          else add_line (TableNotFound table) (verify_tables db s rest False))"

text \<open>The check of the extension, inside its own \<^verbatim>\<open>try ... except Exception\<close>.\<close>

definition vector_report :: "'db database \<Rightarrow> 'db \<Rightarrow> report_line" where
  "vector_report db s =
     (case db_execute_query db s VectorInstalledQuery None of
        Inl e \<Rightarrow> VectorCheckFailed e
      | Inr result \<Rightarrow>
          (case first_cell result of
             Inl e \<Rightarrow> VectorCheckFailed e
           | Inr v \<Rightarrow> if truthy v then VectorInstalled else VectorNotInstalled))"

definition verify_setup :: "'db database \<Rightarrow> 'db \<Rightarrow> (exn + bool) \<times> report_line list" where
  "verify_setup db s =
     (case verify_tables db s required_tables True of
        (Inl e, report) \<Rightarrow> (Inl e, report)
      | (Inr all_good, report) \<Rightarrow> (Inr all_good, report @ [vector_report db s]))"

section \<open>A model of the database behind the handle\<close>

text \<open>
  What the statements of \<^verbatim>\<open>DatabaseSetup\<close> do to a PostgreSQL database, as far as the
  names of its objects go: whether the server can install the extension \<^verbatim>\<open>vector\<close>,
  whether the database has it, the tables of the schema \<^verbatim>\<open>public\<close> with their numbers
  of rows, the foreign-key constraints (table and constraint name, with the table
  referenced) and the indexes (name, with the table indexed). Columns are not modelled.
  An outcome depends on the catalog only: the server is reachable and the pool is not
  exhausted. Exceptions are the ones that \<^verbatim>\<open>DatabaseConnection\<close> lets out.
  This section describes the database, not code of the repository: it is the
  environment in which two runs of \<open>setup_all\<close> are compared.
\<close>

record catalog =
  vector_available :: bool
  extension :: bool
  tables :: "string \<rightharpoonup> int"
  constraints :: "string \<times> string \<rightharpoonup> string"
  indexes :: "string \<rightharpoonup> string"

definition undefined_table :: "string \<Rightarrow> exn" where
  "undefined_table t = PyException (''Query error: relation '' @ t @ '' does not exist'')"

definition pg_query :: "catalog \<Rightarrow> sql \<Rightarrow> params option \<Rightarrow> exn + row list" where
  "pg_query c q ps =
     (case q of
        TableExistsQuery \<Rightarrow>
          (case ps of
             Some [VStr t] \<Rightarrow> Inr [[VBool (tables c t \<noteq> None)]]
           | _ \<Rightarrow> Inl (PyException ''Unexpected database error: tuple index out of range''))
      | ConstraintExistsQuery \<Rightarrow>
          (case ps of
             Some [VStr t, VStr n] \<Rightarrow> Inr [[VBool (constraints c (t, n) \<noteq> None)]]
           | _ \<Rightarrow> Inl (PyException ''Unexpected database error: tuple index out of range''))
      | CountQuery t \<Rightarrow>
          (case tables c t of
             None \<Rightarrow> Inl (undefined_table t)
           | Some rows \<Rightarrow> Inr [[VInt rows]])
      | VectorInstalledQuery \<Rightarrow> Inr [[VBool (extension c)]]
      | _ \<Rightarrow> Inl (PyException ''Query error: no results to fetch''))"

definition pg_update :: "catalog \<Rightarrow> sql \<Rightarrow> params option \<Rightarrow> (exn + int) \<times> catalog" where
  "pg_update c q ps =
     (case q of
        CreateExtension \<Rightarrow>
          if extension c then (Inr (- 1), c)
          else if vector_available c then (Inr (- 1), c\<lparr>extension := True\<rparr>)
          else (Inl (OtherError ''extension vector is not available''), c)
      | CreateTable t \<Rightarrow>
          if tables c t \<noteq> None
          then (Inl (PyException (''Query error: relation '' @ t @ '' already exists'')), c)
          else if t = ''embeddings'' \<and> \<not> extension c
          then (Inl (PyException ''Query error: type vector does not exist''), c)
          else (Inr (- 1), c\<lparr>tables := (tables c)(t \<mapsto> 0)\<rparr>)
      | AddForeignKey t n column \<Rightarrow>
          if tables c t = None then (Inl (undefined_table t), c)
          else if tables c ''analysis_registry'' = None
          then (Inl (undefined_table ''analysis_registry''), c)
          else if constraints c (t, n) \<noteq> None
          then (Inl (PyException (''Query error: constraint '' @ n @ '' for relation '' @ t
                                   @ '' already exists'')), c)
          else (Inr (- 1), c\<lparr>constraints := (constraints c)((t, n) \<mapsto> ''analysis_registry'')\<rparr>)
      | CreateIndex n t column \<Rightarrow>
          if indexes c n \<noteq> None then (Inr (- 1), c)
          else if tables c t = None then (Inl (undefined_table t), c)
          else (Inr (- 1), c\<lparr>indexes := (indexes c)(n \<mapsto> t)\<rparr>)
      | CreateVectorIndex \<Rightarrow>
          if indexes c ''idx_embeddings_vector'' \<noteq> None then (Inr (- 1), c)
          else if tables c ''embeddings'' = None then (Inl (undefined_table ''embeddings''), c)
          else if \<not> extension c
          then (Inl (PyException ''Query error: operator class vector_cosine_ops does not exist for access method ivfflat''), c)
          else (Inr (- 1), c\<lparr>indexes := (indexes c)(''idx_embeddings_vector'' \<mapsto> ''embeddings'')\<rparr>)
      | DropTable t \<Rightarrow>
          (Inr (- 1),
           c\<lparr>tables := (tables c)(t := None),
             constraints :=
               (\<lambda>k. case constraints c k of
                      None \<Rightarrow> None
                    | Some r \<Rightarrow> if fst k = t \<or> r = t then None else Some r),
             indexes :=
               (\<lambda>n. case indexes c n of
                      None \<Rightarrow> None
                    | Some t' \<Rightarrow> if t' = t then None else Some t')\<rparr>)
      | _ \<Rightarrow>
          (case pg_query c q ps of
             Inl e \<Rightarrow> (Inl e, c)
           | Inr rows \<Rightarrow> (Inr (int (length rows)), c)))"

definition pg :: "catalog database" where
  "pg = \<lparr>db_execute_query = pg_query, db_execute_update = pg_update\<rparr>"

text \<open>A fresh database on a server that has pgvector.\<close>

definition fresh_catalog :: catalog where
  "fresh_catalog =
     \<lparr>vector_available = True, extension = False, tables = Map.empty,
      constraints = Map.empty, indexes = Map.empty\<rparr>"

text \<open>Nothing that a catalog has is missing in a later one.\<close>

definition extends :: "catalog \<Rightarrow> catalog \<Rightarrow> bool" where
  "extends s s' \<longleftrightarrow>
     (extension s \<longrightarrow> extension s') \<and> dom (tables s) \<subseteq> dom (tables s') \<and>
     dom (constraints s) \<subseteq> dom (constraints s') \<and> dom (indexes s) \<subseteq> dom (indexes s')"

text \<open>Every object that \<open>setup_all\<close> is to provide is there.\<close>

definition provisioned :: "catalog \<Rightarrow> bool" where
  "provisioned s \<longleftrightarrow>
     extension s \<and> set required_tables \<subseteq> dom (tables s) \<and>
     (\<forall>(t, c, n) \<in> set foreign_keys. (t, n) \<in> dom (constraints s)) \<and>
     (\<forall>(n, t, c) \<in> set plain_indexes. n \<in> dom (indexes s)) \<and>
     ''idx_embeddings_vector'' \<in> dom (indexes s)"

text \<open>The fresh database after \<open>setup_all\<close>.\<close>

definition provisioned_catalog :: catalog where
  "provisioned_catalog =
     \<lparr>vector_available = True, extension = True,
      tables =
        [''analysis_registry'' \<mapsto> 0, ''stg_rejects'' \<mapsto> 0, ''insights_cache'' \<mapsto> 0,
         ''query_history'' \<mapsto> 0, ''embeddings'' \<mapsto> 0],
      constraints =
        [(''insights_cache'', ''fk_insights_analysis'') \<mapsto> ''analysis_registry'',
         (''query_history'', ''fk_query_analysis'') \<mapsto> ''analysis_registry'',
         (''embeddings'', ''fk_embeddings_analysis'') \<mapsto> ''analysis_registry''],
      indexes =
        [''idx_analysis_registry_session'' \<mapsto> ''analysis_registry'',
         ''idx_analysis_registry_status'' \<mapsto> ''analysis_registry'',
         ''idx_stg_rejects_source'' \<mapsto> ''stg_rejects'',
         ''idx_stg_rejects_timestamp'' \<mapsto> ''stg_rejects'',
         ''idx_insights_cache_analysis'' \<mapsto> ''insights_cache'',
         ''idx_insights_cache_type'' \<mapsto> ''insights_cache'',
         ''idx_query_history_analysis'' \<mapsto> ''query_history'',
         ''idx_embeddings_analysis'' \<mapsto> ''embeddings'',
         ''idx_embeddings_type'' \<mapsto> ''embeddings'',
         ''idx_embeddings_vector'' \<mapsto> ''embeddings'']\<rparr>"

text \<open>The same database behind a handle whose check of the extension fails.\<close>

definition no_vector_check :: "catalog database" where
  "no_vector_check =
     pg\<lparr>db_execute_query :=
          (\<lambda>s q ps. if q = VectorInstalledQuery
                     then Inl (PyException ''Unexpected database error: connection lost'')
                     else pg_query s q ps)\<rparr>"

text \<open>The same database behind a handle that cannot count the rows of \<^verbatim>\<open>embeddings\<close>.\<close>

definition no_count_check :: "catalog database" where
  "no_count_check =
     pg\<lparr>db_execute_query :=
          (\<lambda>s q ps. if q = CountQuery ''embeddings''
                     then Inl (PyException ''Query error: permission denied for table embeddings'')
                     else pg_query s q ps)\<rparr>"

section \<open>Properties of connection.py\<close>

lemmas op_defs = execute_query_def execute_update_def execute_many_def query_body_def
  update_body_def many_body_def with_connection_def get_connection_and_cursor_def
  try_except_finally_def release_def handle_def and_then_def call_def

subsection \<open>How a call can return a value\<close>

lemma handle_raises: "\<exists>e' t. handle d co cl e = (Inl e', t)"
  by (cases cl; cases co; cases "on_rollback d")
     (auto simp: handle_def and_then_def call_def split: prod.splits)

lemma try_except_finally_Inr:
  assumes "try_except_finally d cl body = (Inr v, t)"
  shows "\<exists>co tb. body = (co, Inr v, tb) \<and>
           (case co of None \<Rightarrow> t = tb
            | Some c \<Rightarrow> on_putconn d = Inr () \<and> t = tb @ [Putconn c])"
proof -
  obtain co r tb where b: "body = (co, r, tb)" by (metis prod_cases3)
  show ?thesis
  proof (cases r)
    case (Inl e)
    obtain e' t' where h: "handle d co (cl e) e = ((Inl e', t') :: 'a outcome)"
      using handle_raises by blast
    from assms b Inl h show ?thesis
      by (cases co; cases "on_putconn d") (simp_all add: try_except_finally_def release_def)
  next
    case (Inr w)
    with assms b show ?thesis
      by (cases co; cases "on_putconn d") (auto simp: try_except_finally_def release_def)
  qed
qed

lemma with_connection_Inr:
  assumes "with_connection d rest = (co, Inr v, tb)"
  shows "\<exists>c tr. co = Some c \<and> on_getconn d = Inr c \<and> on_cursor d = Inr () \<and>
           rest c = (Inr v, tr) \<and> tb = [Getconn, Cursor c] @ tr"
  using assms
  by (cases "on_getconn d"; cases "on_cursor d"; cases "rest (projr (on_getconn d))")
     (auto simp: with_connection_def get_connection_and_cursor_def and_then_def call_def
           split: sum.splits)

lemma and_then_call_Inr:
  "and_then (call ev r) f = (Inr v, t) \<longleftrightarrow>
     (\<exists>x t'. r = Inr x \<and> f x = (Inr v, t') \<and> t = ev # t')"
  by (cases r) (auto simp: and_then_def call_def split: prod.splits)

lemma query_handle:
  "handle d co (query_except e) e = (Inl (snd (the (query_except e))), [])"
  by (cases e; cases co) (simp_all add: handle_def)

subsection \<open>The empty batch\<close>

text \<open>
  C3. For every driver and every statement, \<open>execute_many\<close> with an empty parameter list
  fails with the exception whose message is
  \<^verbatim>\<open>Invalid parameters format: params_list cannot be empty\<close>, of kind
  \<open>InvalidParameters\<close>, and its trace is empty: no call is made on the pool, on a
  connection or on a cursor (no \<open>Getconn\<close>, no \<open>Rollback\<close>, no \<open>Executemany\<close>).
\<close>

theorem execute_many_empty:
  "execute_many d query [] =
     (Inl (PyException ''Invalid parameters format: params_list cannot be empty''), [])
   \<and> error_kind (PyException ''Invalid parameters format: params_list cannot be empty'')
       = Some InvalidParameters"
  by (simp add: op_defs kind_of_message_def)

subsection \<open>A successful update\<close>

text \<open>
  C6. Whenever \<open>execute_update\<close> returns a value, its trace is exactly: take a connection
  \<open>c\<close>, open a cursor, execute the one statement, commit, close the cursor, put \<open>c\<close> back.
  So one statement is executed, the commit follows it, the connection is released once
  and last, and the value returned is the row count of the cursor.
\<close>

theorem execute_update_success:
  "execute_update d query ps = (Inr n, t) \<Longrightarrow>
   \<exists>c. on_getconn d = Inr c \<and>
     t = [Getconn, Cursor c, Execute c query ps, Commit c, Close c, Putconn c] \<and>
     n = cursor_rowcount d"
  unfolding execute_update_def update_body_def
  by (auto dest!: try_except_finally_Inr with_connection_Inr simp: and_then_call_Inr
           split: option.splits)

theorem execute_update_success_witness:
  "execute_update ok_driver ''UPDATE users SET active = true WHERE id = %s'' (Some [VInt 1]) =
     (Inr 5, [Getconn, Cursor 7,
              Execute 7 ''UPDATE users SET active = true WHERE id = %s'' (Some [VInt 1]),
              Commit 7, Close 7, Putconn 7])
   \<and> (\<exists>c. on_getconn ok_driver = Inr c \<and>
        [Getconn, Cursor 7,
         Execute 7 ''UPDATE users SET active = true WHERE id = %s'' (Some [VInt 1]),
         Commit 7, Close 7, Putconn 7] =
        [Getconn, Cursor c,
         Execute c ''UPDATE users SET active = true WHERE id = %s'' (Some [VInt 1]),
         Commit c, Close c, Putconn c] \<and>
        (5::int) = cursor_rowcount ok_driver)"
proof -
  have h: "execute_update ok_driver ''UPDATE users SET active = true WHERE id = %s''
             (Some [VInt 1]) =
           (Inr 5, [Getconn, Cursor 7,
              Execute 7 ''UPDATE users SET active = true WHERE id = %s'' (Some [VInt 1]),
              Commit 7, Close 7, Putconn 7])"
    by (simp add: op_defs ok_driver_def)
  from h execute_update_success [OF h] show ?thesis by simp
qed

subsection \<open>The read path\<close>

text \<open>
  C7. In every call of \<open>execute_query\<close>, returning or raising, the trace holds no
  \<open>Commit\<close> and no \<open>Rollback\<close>, on any connection. When the call returns rows, its
  trace is exactly: take a connection \<open>c\<close>, open a cursor, execute the statement, fetch
  all rows, close the cursor, put \<open>c\<close> back; and the rows returned are the rows fetched.
\<close>

theorem execute_query_read_only:
  "Commit c \<notin> set (snd (execute_query d query ps)) \<and>
   Rollback c \<notin> set (snd (execute_query d query ps)) \<and>
   (fst (execute_query d query ps) = Inr rows \<longrightarrow>
      (\<exists>c'. on_getconn d = Inr c' \<and> on_fetchall d = Inr rows \<and>
         snd (execute_query d query ps) =
           [Getconn, Cursor c', Execute c' query ps, Fetchall c', Close c', Putconn c']))"
proof -
  have no_txn: "Commit c \<notin> set (snd (execute_query d query ps)) \<and>
                Rollback c \<notin> set (snd (execute_query d query ps))"
    by (cases "on_getconn d"; cases "on_cursor d"; cases "on_execute d";
        cases "on_fetchall d"; cases "on_close d"; cases "on_putconn d")
       (simp_all add: execute_query_def query_body_def with_connection_def
          get_connection_and_cursor_def try_except_finally_def release_def and_then_def
          call_def query_handle)
  have "\<exists>c'. on_getconn d = Inr c' \<and> on_fetchall d = Inr rows \<and>
         snd (execute_query d query ps) =
           [Getconn, Cursor c', Execute c' query ps, Fetchall c', Close c', Putconn c']"
    if "fst (execute_query d query ps) = Inr rows"
  proof -
    from that have "execute_query d query ps = (Inr rows, snd (execute_query d query ps))"
      by (metis prod.collapse)
    then show ?thesis
      unfolding execute_query_def query_body_def
      by (auto dest!: try_except_finally_Inr with_connection_Inr simp: and_then_call_Inr
               split: option.splits)
  qed
  with no_txn show ?thesis by blast
qed

theorem execute_query_read_only_witness:
  "fst (execute_query ok_driver ''SELECT * FROM users WHERE id = %s'' (Some [VInt 1])) =
     Inr [[VStr ''result1''], [VStr ''result2'']]
   \<and> snd (execute_query ok_driver ''SELECT * FROM users WHERE id = %s'' (Some [VInt 1])) =
       [Getconn, Cursor 7, Execute 7 ''SELECT * FROM users WHERE id = %s'' (Some [VInt 1]),
        Fetchall 7, Close 7, Putconn 7]
   \<and> Commit 7 \<notin> set (snd (execute_query ok_driver ''SELECT * FROM users WHERE id = %s''
                             (Some [VInt 1])))"
proof -
  have h: "fst (execute_query ok_driver ''SELECT * FROM users WHERE id = %s''
             (Some [VInt 1])) = Inr [[VStr ''result1''], [VStr ''result2'']]"
    by (simp add: op_defs ok_driver_def)
  from h execute_query_read_only [of 7 ok_driver "''SELECT * FROM users WHERE id = %s''"
      "Some [VInt 1]" "[[VStr ''result1''], [VStr ''result2'']]"]
  show ?thesis by (simp add: ok_driver_def)
qed

subsection \<open>How a failure leaves a call\<close>

lemma suffix_app: "suffix m (p @ m)"
  by (simp add: suffix_def)

lemma kind_simps:
  "kind_of_message ''Connection pool exhausted'' = Some PoolExhausted"
  "kind_of_message ''Database initial connection failed, try again'' = Some ConnectionFailure"
  "kind_of_message ''Database connection failed during query, try again'' =
     Some ConnectionFailure"
  "kind_of_message ''Database connection failed during update, try again'' =
     Some ConnectionFailure"
  "kind_of_message (''Database connection failed: '' @ m) = Some ConnectionFailure"
  "kind_of_message (''Query error: '' @ m) = Some QueryError"
  "kind_of_message (''Data Constraint violation: '' @ m) = Some ConstraintViolation"
  "kind_of_message (''Data constraint violation: '' @ m) = Some ConstraintViolation"
  "kind_of_message (''Batch operation has failed - constraint violation: '' @ m) =
     Some ConstraintViolation"
  "kind_of_message (''Invalid data: '' @ m) = Some InvalidData"
  "kind_of_message (''Batch operation has failed - invalid data: '' @ m) = Some InvalidData"
  "kind_of_message (''Invalid parameters format: '' @ m) = Some InvalidParameters"
  "kind_of_message (''Unexpected database error: '' @ m) = Some Unexpected"
  by (simp_all add: kind_of_message_def)

lemma try_except_finally_Inl:
  assumes "fst (snd body) = Inl e" and "on_putconn d = Inr ()" and "cl e = Some (rb, e')"
    and "rb \<longrightarrow> on_rollback d = Inr ()"
  shows "fst (try_except_finally d cl body) = Inl e'"
proof -
  obtain co r tb where b: "body = (co, r, tb)" by (metis prod_cases3)
  with assms show ?thesis
    by (cases co; cases rb)
       (simp_all add: try_except_finally_def release_def handle_def and_then_def call_def)
qed

subsection \<open>Release and rollback while the caller holds the connection\<close>

text \<open>
  Once \<^verbatim>\<open>_get_connection_and_cursor\<close> has returned, the variable \<^verbatim>\<open>connection\<close> is
  set: the trace of each operation ends with the one \<open>Putconn\<close>, whatever happens in
  between; a failure named by a clause that rolls back is followed by \<open>Rollback\<close> and
  then \<open>Putconn\<close>; and a failure of \<^verbatim>\<open>getconn\<close> is followed by nothing.
\<close>

lemma try_except_finally_trace:
  "\<exists>th. snd (try_except_finally d cl (Some c, r, tb)) = tb @ th @ [Putconn c] \<and>
        (th = [] \<or> th = [Rollback c])"
proof (cases r)
  case (Inr v)
  then show ?thesis
    by (cases "on_putconn d") (simp_all add: try_except_finally_def release_def)
next
  case (Inl e)
  show ?thesis
  proof (cases "cl e")
    case None
    with Inl show ?thesis
      by (cases "on_putconn d") (simp_all add: try_except_finally_def release_def handle_def)
  next
    case (Some p)
    obtain rb e' where p: "p = (rb, e')" by (cases p)
    with Inl Some show ?thesis
      by (cases "on_putconn d"; cases "on_rollback d"; cases rb)
         (simp_all add: try_except_finally_def release_def handle_def and_then_def call_def)
  qed
qed

lemma with_connection_trace:
  assumes "on_getconn d = Inr c" and "on_cursor d = Inr ()"
  shows "with_connection d rest = (Some c, fst (rest c), [Getconn, Cursor c] @ snd (rest c))"
  using assms
  by (simp add: with_connection_def get_connection_and_cursor_def and_then_def call_def
        split: prod.splits)

lemma query_rest_trace:
  "Putconn c \<notin> set (snd (and_then (call (Execute c query ps) (on_execute d)) (\<lambda>_.
       and_then (call (Fetchall c) (on_fetchall d)) (\<lambda>result.
       and_then (call (Close c) (on_close d)) (\<lambda>_.
       (Inr result, []))))))"
  by (cases "on_execute d"; cases "on_fetchall d"; cases "on_close d")
     (simp_all add: and_then_def call_def)

lemma update_rest_trace:
  "Putconn c \<notin> set (snd (and_then (call (Execute c query ps) (on_execute d)) (\<lambda>_.
       and_then (call (Commit c) (on_commit d)) (\<lambda>_.
       and_then (call (Close c) (on_close d)) (\<lambda>_.
       (Inr (cursor_rowcount d), []))))))"
  by (cases "on_execute d"; cases "on_commit d"; cases "on_close d")
     (simp_all add: and_then_def call_def)

lemma many_rest_trace:
  "Putconn c \<notin> set (snd (and_then (call (Executemany c query pl) (on_executemany d)) (\<lambda>_.
       and_then (call (Commit c) (on_commit d)) (\<lambda>_.
       and_then (call (Close c) (on_close d)) (\<lambda>_.
       (Inr (cursor_rowcount d), []))))))"
  by (cases "on_executemany d"; cases "on_commit d"; cases "on_close d")
     (simp_all add: and_then_def call_def)

lemma released_after_body:
  assumes "Putconn c \<notin> set tb"
  shows "\<exists>t. snd (try_except_finally d cl (Some c, r, tb)) = t @ [Putconn c] \<and>
             Putconn c \<notin> set t"
proof -
  obtain th where t: "snd (try_except_finally d cl (Some c, r, tb)) = tb @ th @ [Putconn c]"
    and h: "th = [] \<or> th = [Rollback c]"
    using try_except_finally_trace by blast
  from h assms have "Putconn c \<notin> set (tb @ th)" by auto
  with t show ?thesis by (intro exI [of _ "tb @ th"]) simp
qed

lemma released_once:
  assumes "on_getconn d = Inr c" and "on_cursor d = Inr ()"
  shows "(\<exists>t. snd (execute_query d query ps) = t @ [Putconn c] \<and> Putconn c \<notin> set t) \<and>
         (\<exists>t. snd (execute_update d query ps) = t @ [Putconn c] \<and> Putconn c \<notin> set t) \<and>
         (pl \<noteq> [] \<longrightarrow>
           (\<exists>t. snd (execute_many d query pl) = t @ [Putconn c] \<and> Putconn c \<notin> set t))"
proof (intro conjI impI)
  show "\<exists>t. snd (execute_query d query ps) = t @ [Putconn c] \<and> Putconn c \<notin> set t"
    unfolding execute_query_def query_body_def with_connection_trace [OF assms]
    by (rule released_after_body) (use query_rest_trace [of c query ps d] in simp)
  show "\<exists>t. snd (execute_update d query ps) = t @ [Putconn c] \<and> Putconn c \<notin> set t"
    unfolding execute_update_def update_body_def with_connection_trace [OF assms]
    by (rule released_after_body) (use update_rest_trace [of c query ps d] in simp)
  assume "pl \<noteq> []"
  then show "\<exists>t. snd (execute_many d query pl) = t @ [Putconn c] \<and> Putconn c \<notin> set t"
    unfolding execute_many_def many_body_def with_connection_trace [OF assms]
    by (simp only: if_False) (rule released_after_body, use many_rest_trace [of c query pl d] in simp)
qed

lemma rollback_then_release:
  assumes "cl e = Some (True, e')"
  shows "snd (try_except_finally d cl (Some c, Inl e, tb)) = tb @ [Rollback c, Putconn c]"
  using assms
  by (cases "on_rollback d"; cases "on_putconn d")
     (simp_all add: try_except_finally_def release_def handle_def and_then_def call_def)

lemma body_holds_connection:
  assumes "on_getconn d = Inr c" and "on_cursor d = Inr ()"
    and "fst (snd (with_connection d rest)) = Inl e"
  shows "\<exists>tb. with_connection d rest = (Some c, Inl e, tb)"
proof -
  have "fst (with_connection d rest) = Some c"
    by (simp add: with_connection_trace [OF assms(1,2)])
  with assms(3) show ?thesis
    by (cases "with_connection d rest") auto
qed

lemma named_failure_rolls_back:
  assumes "on_getconn d = Inr c" and "on_cursor d = Inr ()"
  shows "(fst (snd (update_body d query ps)) = Inl e \<and> update_except e = Some (True, e') \<longrightarrow>
           (\<exists>t. snd (execute_update d query ps) = t @ [Rollback c, Putconn c] \<and>
                Rollback c \<notin> set t \<and> Putconn c \<notin> set t)) \<and>
         (pl \<noteq> [] \<and> fst (snd (many_body d query pl)) = Inl e \<and>
          many_except e = Some (True, e') \<longrightarrow>
           (\<exists>t. snd (execute_many d query pl) = t @ [Rollback c, Putconn c] \<and>
                Rollback c \<notin> set t \<and> Putconn c \<notin> set t))"
proof (intro conjI impI; elim conjE)
  assume f: "fst (snd (update_body d query ps)) = Inl e"
    and h: "update_except e = Some (True, e')"
  from body_holds_connection [OF assms f [unfolded update_body_def]]
  obtain tb where b: "update_body d query ps = (Some c, Inl e, tb)"
    unfolding update_body_def by blast
  have "Rollback c \<notin> set (snd (snd (update_body d query ps))) \<and>
        Putconn c \<notin> set (snd (snd (update_body d query ps)))"
    unfolding update_body_def with_connection_trace [OF assms]
    by (cases "on_execute d"; cases "on_commit d"; cases "on_close d")
       (simp_all add: and_then_def call_def)
  then have n: "Rollback c \<notin> set tb \<and> Putconn c \<notin> set tb"
    by (simp add: b)
  have "snd (execute_update d query ps) = tb @ [Rollback c, Putconn c]"
    unfolding execute_update_def b by (rule rollback_then_release [of update_except e e', OF h])
  with n show "\<exists>t. snd (execute_update d query ps) = t @ [Rollback c, Putconn c] \<and>
                Rollback c \<notin> set t \<and> Putconn c \<notin> set t"
    by blast
next
  assume p: "pl \<noteq> []" and f: "fst (snd (many_body d query pl)) = Inl e"
    and h: "many_except e = Some (True, e')"
  from p have mb: "many_body d query pl =
      with_connection d (\<lambda>c.
          and_then (call (Executemany c query pl) (on_executemany d)) (\<lambda>_.
          and_then (call (Commit c) (on_commit d)) (\<lambda>_.
          and_then (call (Close c) (on_close d)) (\<lambda>_.
          (Inr (cursor_rowcount d), [])))))"
    by (simp add: many_body_def)
  from body_holds_connection [OF assms f [unfolded mb]]
  obtain tb where b: "many_body d query pl = (Some c, Inl e, tb)"
    unfolding mb by blast
  have "Rollback c \<notin> set (snd (snd (many_body d query pl))) \<and>
        Putconn c \<notin> set (snd (snd (many_body d query pl)))"
    unfolding mb with_connection_trace [OF assms]
    by (cases "on_executemany d"; cases "on_commit d"; cases "on_close d")
       (simp_all add: and_then_def call_def)
  then have n: "Rollback c \<notin> set tb \<and> Putconn c \<notin> set tb"
    by (simp add: b)
  have "snd (execute_many d query pl) = tb @ [Rollback c, Putconn c]"
    unfolding execute_many_def b by (rule rollback_then_release [of many_except e e', OF h])
  with n show "\<exists>t. snd (execute_many d query pl) = t @ [Rollback c, Putconn c] \<and>
                Rollback c \<notin> set t \<and> Putconn c \<notin> set t"
    by blast
qed

lemma no_rollback_before_acquisition:
  assumes "on_getconn d = Inl e"
  shows "snd (execute_update d query ps) = [Getconn] \<and>
         (pl \<noteq> [] \<longrightarrow> snd (execute_many d query pl) = [Getconn])"
  using assms
  by (cases "update_except (acquire_except e)"; cases "many_except (acquire_except e)")
     (auto simp: op_defs)

subsection \<open>A cursor that cannot be opened\<close>

text \<open>
  C1. The claim fails on the code where \<^verbatim>\<open>connection.cursor()\<close> raises inside
  \<^verbatim>\<open>_get_connection_and_cursor\<close>: \<^verbatim>\<open>getconn\<close> has returned connection 7, the helper
  raises before it returns, so the variable \<^verbatim>\<open>connection\<close> of the caller is still
  \<^verbatim>\<open>None\<close> and the \<^verbatim>\<open>finally\<close> block skips \<^verbatim>\<open>putconn\<close>. The three operations end
  with the trace \<open>[Getconn, Cursor 7]\<close>: connection 7 is never put back.
\<close>

theorem cursor_failure_never_releases:
  "on_getconn cursor_fails_driver = Inr 7 \<and>
   execute_query cursor_fails_driver ''SELECT 1'' None =
     (Inl (PyException ''Unexpected database error: connection already closed''),
      [Getconn, Cursor 7]) \<and>
   execute_update cursor_fails_driver ''DELETE FROM t'' None =
     (Inl (OtherError ''connection already closed''), [Getconn, Cursor 7]) \<and>
   execute_many cursor_fails_driver ''INSERT INTO t VALUES (%s)'' [[VInt 1]] =
     (Inl (OtherError ''connection already closed''), [Getconn, Cursor 7])"
  by (simp add: op_defs cursor_fails_driver_def ok_driver_def)

subsection \<open>A failure that no clause names\<close>

text \<open>
  C2. The claim fails on the code where the statement raises an exception that no
  \<^verbatim>\<open>except\<close> clause of \<open>execute_update\<close> or \<open>execute_many\<close> names (here
  \<^verbatim>\<open>psycopg2.InternalError\<close>): the connection was taken, the statement was sent, and the
  connection goes back to the pool with no \<open>Rollback\<close> in the trace.
\<close>

theorem unnamed_failure_no_rollback:
  "execute_update internal_error_driver ''DELETE FROM t'' None =
     (Inl (OtherError ''out of memory''),
      [Getconn, Cursor 7, Execute 7 ''DELETE FROM t'' None, Putconn 7]) \<and>
   execute_many internal_error_driver ''INSERT INTO t VALUES (%s)'' [[VInt 1]] =
     (Inl (OtherError ''out of memory''),
      [Getconn, Cursor 7, Executemany 7 ''INSERT INTO t VALUES (%s)'' [[VInt 1]],
       Putconn 7])"
  by (simp add: op_defs internal_error_driver_def ok_driver_def)

subsection \<open>Classification of failures\<close>

lemma query_body_failure:
  assumes "on_getconn d = Inr c" and "on_cursor d = Inr ()"
    and "on_execute d = Inl e \<or>
         on_execute d = Inr () \<and>
           (on_fetchall d = Inl e \<or> (\<exists>rows. on_fetchall d = Inr rows) \<and> on_close d = Inl e)"
  shows "fst (snd (query_body d query ps)) = Inl e"
  using assms(3)
  by (auto simp: query_body_def with_connection_trace [OF assms(1,2)] and_then_def call_def)

lemma update_body_failure:
  assumes "on_getconn d = Inr c" and "on_cursor d = Inr ()"
    and "on_execute d = Inl e \<or>
         on_execute d = Inr () \<and> (on_commit d = Inl e \<or> on_commit d = Inr () \<and> on_close d = Inl e)"
  shows "fst (snd (update_body d query ps)) = Inl e"
  using assms(3)
  by (auto simp: update_body_def with_connection_trace [OF assms(1,2)] and_then_def call_def)

lemma many_body_failure:
  assumes "on_getconn d = Inr c" and "on_cursor d = Inr ()" and "pl \<noteq> []"
    and "on_executemany d = Inl e \<or>
         on_executemany d = Inr () \<and>
           (on_commit d = Inl e \<or> on_commit d = Inr () \<and> on_close d = Inl e)"
  shows "fst (snd (many_body d query pl)) = Inl e"
  using assms(3,4)
  by (auto simp: many_body_def with_connection_trace [OF assms(1,2)] and_then_def call_def)

lemma acquisition_failure:
  assumes "on_getconn d = Inl x \<or> on_getconn d = Inr c \<and> on_cursor d = Inl x"
  shows "with_connection d rest = (None, Inl (acquire_except x), snd (snd (with_connection d rest)))"
  using assms
  by (auto simp: with_connection_def get_connection_and_cursor_def and_then_def call_def)

lemma unhandled_before_connection:
  assumes "cl e = None"
  shows "fst (try_except_finally d cl (None, Inl e, tb)) = Inl e"
  using assms by (simp add: try_except_finally_def release_def handle_def)


lemma classified_query:
  "on_getconn d = Inr c \<and> on_cursor d = Inr () \<and> on_putconn d = Inr () \<and>
   (on_execute d = Inl e \<or>
    on_execute d = Inr () \<and>
      (on_fetchall d = Inl e \<or> (\<exists>rows. on_fetchall d = Inr rows) \<and> on_close d = Inl e)) \<longrightarrow>
   (case e of
      PoolError t \<Rightarrow>
        fst (execute_query d query ps) = Inl (PyException ''Connection pool exhausted'')
    | OperationalError t \<Rightarrow>
        fst (execute_query d query ps) =
          Inl (PyException ''Database connection failed during query, try again'')
    | ProgrammingError t \<Rightarrow>
        (\<exists>m. fst (execute_query d query ps) = Inl (PyException m) \<and>
           error_kind (PyException m) = Some QueryError \<and> suffix t m)
    | IntegrityError t \<Rightarrow>
        (\<exists>m. fst (execute_query d query ps) = Inl (PyException m) \<and>
           error_kind (PyException m) = Some ConstraintViolation \<and> suffix t m)
    | _ \<Rightarrow>
        (\<exists>m. fst (execute_query d query ps) = Inl (PyException m) \<and>
           error_kind (PyException m) = Some Unexpected \<and> suffix (str e) m))"
proof (intro impI; elim conjE)
  assume a: "on_getconn d = Inr c" "on_cursor d = Inr ()" and p: "on_putconn d = Inr ()"
    and f: "on_execute d = Inl e \<or>
      on_execute d = Inr () \<and>
        (on_fetchall d = Inl e \<or> (\<exists>rows. on_fetchall d = Inr rows) \<and> on_close d = Inl e)"
  obtain e' where c: "query_except e = Some (False, e')" by (cases e) simp_all
  have r: "fst (execute_query d query ps) = Inl e'"
    unfolding execute_query_def
    using query_body_failure [OF a f] p c
    by (intro try_except_finally_Inl [where rb = False]) simp_all
  from c show "case e of
      PoolError t \<Rightarrow>
        fst (execute_query d query ps) = Inl (PyException ''Connection pool exhausted'')
    | OperationalError t \<Rightarrow>
        fst (execute_query d query ps) =
          Inl (PyException ''Database connection failed during query, try again'')
    | ProgrammingError t \<Rightarrow>
        (\<exists>m. fst (execute_query d query ps) = Inl (PyException m) \<and>
           error_kind (PyException m) = Some QueryError \<and> suffix t m)
    | IntegrityError t \<Rightarrow>
        (\<exists>m. fst (execute_query d query ps) = Inl (PyException m) \<and>
           error_kind (PyException m) = Some ConstraintViolation \<and> suffix t m)
    | _ \<Rightarrow>
        (\<exists>m. fst (execute_query d query ps) = Inl (PyException m) \<and>
           error_kind (PyException m) = Some Unexpected \<and> suffix (str e) m)"
    unfolding r by (cases e) (auto simp del: append_Cons simp: kind_simps suffix_app)
qed

lemma classified_update:
  "on_getconn d = Inr c \<and> on_cursor d = Inr () \<and> on_rollback d = Inr () \<and>
   on_putconn d = Inr () \<and>
   (on_execute d = Inl e \<or>
    on_execute d = Inr () \<and> (on_commit d = Inl e \<or> on_commit d = Inr () \<and> on_close d = Inl e)) \<longrightarrow>
   (case e of
      PoolError t \<Rightarrow>
        fst (execute_update d query ps) = Inl (PyException ''Connection pool exhausted'')
    | OperationalError t \<Rightarrow>
        fst (execute_update d query ps) =
          Inl (PyException ''Database connection failed during update, try again'')
    | IntegrityError t \<Rightarrow>
        (\<exists>m. fst (execute_update d query ps) = Inl (PyException m) \<and>
           error_kind (PyException m) = Some ConstraintViolation \<and> suffix t m)
    | DataError t \<Rightarrow>
        (\<exists>m. fst (execute_update d query ps) = Inl (PyException m) \<and>
           error_kind (PyException m) = Some InvalidData \<and> suffix t m)
    | ProgrammingError t \<Rightarrow>
        (\<exists>m. fst (execute_update d query ps) = Inl (PyException m) \<and>
           error_kind (PyException m) = Some QueryError \<and> suffix t m)
    | _ \<Rightarrow> True)"
proof (intro impI; elim conjE)
  assume a: "on_getconn d = Inr c" "on_cursor d = Inr ()" and b: "on_rollback d = Inr ()"
    and p: "on_putconn d = Inr ()"
    and f: "on_execute d = Inl e \<or>
      on_execute d = Inr () \<and> (on_commit d = Inl e \<or> on_commit d = Inr () \<and> on_close d = Inl e)"
  have r: "fst (execute_update d query ps) = Inl e'" if "update_except e = Some (rb, e')" for rb e'
    unfolding execute_update_def
    using update_body_failure [OF a f] p b that
    by (intro try_except_finally_Inl [where rb = rb]) simp_all
  show "case e of
      PoolError t \<Rightarrow>
        fst (execute_update d query ps) = Inl (PyException ''Connection pool exhausted'')
    | OperationalError t \<Rightarrow>
        fst (execute_update d query ps) =
          Inl (PyException ''Database connection failed during update, try again'')
    | IntegrityError t \<Rightarrow>
        (\<exists>m. fst (execute_update d query ps) = Inl (PyException m) \<and>
           error_kind (PyException m) = Some ConstraintViolation \<and> suffix t m)
    | DataError t \<Rightarrow>
        (\<exists>m. fst (execute_update d query ps) = Inl (PyException m) \<and>
           error_kind (PyException m) = Some InvalidData \<and> suffix t m)
    | ProgrammingError t \<Rightarrow>
        (\<exists>m. fst (execute_update d query ps) = Inl (PyException m) \<and>
           error_kind (PyException m) = Some QueryError \<and> suffix t m)
    | _ \<Rightarrow> True"
    using r by (cases e) (auto simp del: append_Cons simp: kind_simps suffix_app)
qed

lemma classified_batch:
  "on_getconn d = Inr c \<and> on_cursor d = Inr () \<and> on_rollback d = Inr () \<and>
   on_putconn d = Inr () \<and> pl \<noteq> [] \<and>
   (on_executemany d = Inl e \<or>
    on_executemany d = Inr () \<and>
      (on_commit d = Inl e \<or> on_commit d = Inr () \<and> on_close d = Inl e)) \<longrightarrow>
   (case e of
      PoolError t \<Rightarrow>
        fst (execute_many d query pl) = Inl (PyException ''Connection pool exhausted'')
    | OperationalError t \<Rightarrow>
        (\<exists>m. fst (execute_many d query pl) = Inl (PyException m) \<and>
           error_kind (PyException m) = Some ConnectionFailure \<and> suffix t m)
    | IntegrityError t \<Rightarrow>
        (\<exists>m. fst (execute_many d query pl) = Inl (PyException m) \<and>
           error_kind (PyException m) = Some ConstraintViolation \<and> suffix t m)
    | DataError t \<Rightarrow>
        (\<exists>m. fst (execute_many d query pl) = Inl (PyException m) \<and>
           error_kind (PyException m) = Some InvalidData \<and> suffix t m)
    | ProgrammingError t \<Rightarrow>
        (\<exists>m. fst (execute_many d query pl) = Inl (PyException m) \<and>
           error_kind (PyException m) = Some QueryError \<and> suffix t m)
    | TypeError t \<Rightarrow>
        (\<exists>m. fst (execute_many d query pl) = Inl (PyException m) \<and>
           error_kind (PyException m) = Some InvalidParameters \<and> suffix t m)
    | ValueError t \<Rightarrow>
        (\<exists>m. fst (execute_many d query pl) = Inl (PyException m) \<and>
           error_kind (PyException m) = Some InvalidParameters \<and> suffix t m)
    | _ \<Rightarrow> True)"
proof (intro impI; elim conjE)
  assume a: "on_getconn d = Inr c" "on_cursor d = Inr ()" and b: "on_rollback d = Inr ()"
    and p: "on_putconn d = Inr ()" and n: "pl \<noteq> []"
    and f: "on_executemany d = Inl e \<or>
      on_executemany d = Inr () \<and>
        (on_commit d = Inl e \<or> on_commit d = Inr () \<and> on_close d = Inl e)"
  have r: "fst (execute_many d query pl) = Inl e'" if "many_except e = Some (rb, e')" for rb e'
    unfolding execute_many_def
    using many_body_failure [OF a n f] p b that
    by (intro try_except_finally_Inl [where rb = rb]) simp_all
  show "case e of
      PoolError t \<Rightarrow>
        fst (execute_many d query pl) = Inl (PyException ''Connection pool exhausted'')
    | OperationalError t \<Rightarrow>
        (\<exists>m. fst (execute_many d query pl) = Inl (PyException m) \<and>
           error_kind (PyException m) = Some ConnectionFailure \<and> suffix t m)
    | IntegrityError t \<Rightarrow>
        (\<exists>m. fst (execute_many d query pl) = Inl (PyException m) \<and>
           error_kind (PyException m) = Some ConstraintViolation \<and> suffix t m)
    | DataError t \<Rightarrow>
        (\<exists>m. fst (execute_many d query pl) = Inl (PyException m) \<and>
           error_kind (PyException m) = Some InvalidData \<and> suffix t m)
    | ProgrammingError t \<Rightarrow>
        (\<exists>m. fst (execute_many d query pl) = Inl (PyException m) \<and>
           error_kind (PyException m) = Some QueryError \<and> suffix t m)
    | TypeError t \<Rightarrow>
        (\<exists>m. fst (execute_many d query pl) = Inl (PyException m) \<and>
           error_kind (PyException m) = Some InvalidParameters \<and> suffix t m)
    | ValueError t \<Rightarrow>
        (\<exists>m. fst (execute_many d query pl) = Inl (PyException m) \<and>
           error_kind (PyException m) = Some InvalidParameters \<and> suffix t m)
    | _ \<Rightarrow> True"
    using r by (cases e) (auto simp del: append_Cons simp: kind_simps suffix_app)
qed


lemma classified_acquisition:
  "on_getconn d = Inl x \<or> on_getconn d = Inr c \<and> on_cursor d = Inl x \<longrightarrow>
   (case x of
      PoolError t \<Rightarrow>
        fst (execute_update d query ps) = Inl (PyException ''Connection pool exhausted'') \<and>
        (pl \<noteq> [] \<longrightarrow>
           fst (execute_many d query pl) = Inl (PyException ''Connection pool exhausted''))
    | OperationalError t \<Rightarrow>
        fst (execute_update d query ps) =
          Inl (PyException ''Database initial connection failed, try again'') \<and>
        (pl \<noteq> [] \<longrightarrow>
           fst (execute_many d query pl) =
             Inl (PyException ''Database initial connection failed, try again''))
    | _ \<Rightarrow> True)"
proof (intro impI)
  assume f: "on_getconn d = Inl x \<or> on_getconn d = Inr c \<and> on_cursor d = Inl x"
  have u: "fst (execute_update d query ps) = Inl (acquire_except x)"
    if "update_except (acquire_except x) = None"
    unfolding execute_update_def update_body_def
    by (subst acquisition_failure [OF f]) (rule unhandled_before_connection [of update_except "acquire_except x", OF that])
  have m: "fst (execute_many d query pl) = Inl (acquire_except x)"
    if "many_except (acquire_except x) = None" and "pl \<noteq> []"
    unfolding execute_many_def many_body_def using that(2)
    by (simp only: if_False, subst acquisition_failure [OF f])
       (rule unhandled_before_connection [of many_except "acquire_except x", OF that(1)])
  show "case x of
      PoolError t \<Rightarrow>
        fst (execute_update d query ps) = Inl (PyException ''Connection pool exhausted'') \<and>
        (pl \<noteq> [] \<longrightarrow>
           fst (execute_many d query pl) = Inl (PyException ''Connection pool exhausted''))
    | OperationalError t \<Rightarrow>
        fst (execute_update d query ps) =
          Inl (PyException ''Database initial connection failed, try again'') \<and>
        (pl \<noteq> [] \<longrightarrow>
           fst (execute_many d query pl) =
             Inl (PyException ''Database initial connection failed, try again''))
    | _ \<Rightarrow> True"
    using u m by (cases x) simp_all
qed

lemma try_except_finally_returns:
  assumes "fst (snd body) = Inr v" and "on_putconn d = Inr ()"
  shows "fst (try_except_finally d cl body) = Inr v"
proof -
  obtain co r tb where b: "body = (co, r, tb)" by (metis prod_cases3)
  with assms show ?thesis
    by (cases co) (simp_all add: try_except_finally_def release_def)
qed

lemma classified_any_query:
  "on_putconn d = Inr () \<and> fst (execute_query d query ps) = Inl x \<longrightarrow>
   (\<exists>m k. x = PyException m \<and> error_kind (PyException m) = Some k)"
proof (intro impI; elim conjE)
  assume p: "on_putconn d = Inr ()" and f: "fst (execute_query d query ps) = Inl x"
  show "\<exists>m k. x = PyException m \<and> error_kind (PyException m) = Some k"
  proof (cases "fst (snd (query_body d query ps))")
    case (Inr v)
    from try_except_finally_returns [OF Inr p, of query_except] f show ?thesis
      by (simp add: execute_query_def)
  next
    case (Inl e)
    obtain e' where c: "query_except e = Some (False, e')" by (cases e) simp_all
    have "fst (execute_query d query ps) = Inl e'"
      unfolding execute_query_def using Inl p c
      by (intro try_except_finally_Inl [where rb = False]) simp_all
    with f have "x = e'" by simp
    with c show ?thesis
      by (cases e) (auto simp del: append_Cons simp: kind_simps)
  qed
qed

lemma nothing_swallowed_query:
  "fst (execute_query d query ps) = Inr rows \<longrightarrow>
   (\<exists>c. on_getconn d = Inr c) \<and> on_cursor d = Inr () \<and> on_execute d = Inr () \<and>
   on_fetchall d = Inr rows \<and> on_close d = Inr () \<and> on_putconn d = Inr ()"
proof
  assume "fst (execute_query d query ps) = Inr rows"
  then have "execute_query d query ps = (Inr rows, snd (execute_query d query ps))"
    by (metis prod.collapse)
  then show "(\<exists>c. on_getconn d = Inr c) \<and> on_cursor d = Inr () \<and> on_execute d = Inr () \<and>
   on_fetchall d = Inr rows \<and> on_close d = Inr () \<and> on_putconn d = Inr ()"
    unfolding execute_query_def query_body_def
    by (auto dest!: try_except_finally_Inr with_connection_Inr simp: and_then_call_Inr
             split: option.splits)
qed

lemma nothing_swallowed_update:
  "fst (execute_update d query ps) = Inr n \<longrightarrow>
   (\<exists>c. on_getconn d = Inr c) \<and> on_cursor d = Inr () \<and> on_execute d = Inr () \<and>
   on_commit d = Inr () \<and> on_close d = Inr () \<and> on_putconn d = Inr ()"
proof
  assume "fst (execute_update d query ps) = Inr n"
  then have "execute_update d query ps = (Inr n, snd (execute_update d query ps))"
    by (metis prod.collapse)
  then show "(\<exists>c. on_getconn d = Inr c) \<and> on_cursor d = Inr () \<and> on_execute d = Inr () \<and>
   on_commit d = Inr () \<and> on_close d = Inr () \<and> on_putconn d = Inr ()"
    unfolding execute_update_def update_body_def
    by (auto dest!: try_except_finally_Inr with_connection_Inr simp: and_then_call_Inr
             split: option.splits)
qed

lemma nothing_swallowed_batch:
  "fst (execute_many d query pl) = Inr n \<longrightarrow>
   pl \<noteq> [] \<and> (\<exists>c. on_getconn d = Inr c) \<and> on_cursor d = Inr () \<and>
   on_executemany d = Inr () \<and> on_commit d = Inr () \<and> on_close d = Inr () \<and>
   on_putconn d = Inr ()"
proof
  assume "fst (execute_many d query pl) = Inr n"
  then have "execute_many d query pl = (Inr n, snd (execute_many d query pl))"
    by (metis prod.collapse)
  then show "pl \<noteq> [] \<and> (\<exists>c. on_getconn d = Inr c) \<and> on_cursor d = Inr () \<and>
   on_executemany d = Inr () \<and> on_commit d = Inr () \<and> on_close d = Inr () \<and>
   on_putconn d = Inr ()"
    unfolding execute_many_def many_body_def
    by (auto dest!: try_except_finally_Inr with_connection_Inr simp: and_then_call_Inr
             split: option.splits if_splits)
qed


text \<open>
  C4, as stated, fails on the code, in four ways. An exception that no clause of
  \<open>execute_update\<close> names leaves the call as it is, with no kind. Two connection
  failures with different texts leave \<open>execute_query\<close> as the same exception, so the
  text is not carried. When the rollback of a handler raises, its exception leaves the
  call in place of the classified one. And when \<^verbatim>\<open>putconn\<close> raises in the
  \<^verbatim>\<open>finally\<close> block, its exception leaves the call in place of the classified one.
\<close>

theorem classification_counterexample:
  "fst (execute_update internal_error_driver ''DELETE FROM t'' None) =
     Inl (OtherError ''out of memory'') \<and>
   error_kind (OtherError ''out of memory'') = None \<and>
   fst (execute_query (connection_lost_driver ''server closed the connection'')
          ''SELECT 1'' None) =
   fst (execute_query (connection_lost_driver ''SSL SYSCALL error: EOF detected'')
          ''SELECT 1'' None) \<and>
   fst (execute_update rollback_fails_driver ''INSERT INTO t VALUES (1)'' None) =
     Inl (OperationalError ''server closed the connection'') \<and>
   error_kind (OperationalError ''server closed the connection'') = None \<and>
   fst (execute_update putconn_fails_driver ''INSERT INTO t VALUES (1)'' None) =
     Inl (PoolError ''trying to put unkeyed connection'') \<and>
   error_kind (PoolError ''trying to put unkeyed connection'') = None"
  by (simp add: op_defs internal_error_driver_def connection_lost_driver_def
        rollback_fails_driver_def putconn_fails_driver_def ok_driver_def)

text \<open>
  C4, amended. Let the connection and the cursor be obtained and the release succeed
  (for \<open>execute_update\<close> and \<open>execute_many\<close>, the rollback too), and let \<open>e\<close> be the
  first exception that a call on the cursor or the connection raises in the \<^verbatim>\<open>try\<close>
  block. Then the operation raises a plain \<^verbatim>\<open>Exception\<close>, as follows.
  \<^item> \<open>execute_query\<close>: a pool error gives the fixed message
    \<^verbatim>\<open>Connection pool exhausted\<close>, an operational error the fixed message
    \<^verbatim>\<open>Database connection failed during query, try again\<close>; a programming error gives
    \<open>QueryError\<close>, an integrity error \<open>ConstraintViolation\<close> and every other exception
    \<open>Unexpected\<close>, each with a message that ends with the original text.
  \<^item> \<open>execute_update\<close>: a pool error gives \<^verbatim>\<open>Connection pool exhausted\<close>, an
    operational error the fixed message
    \<^verbatim>\<open>Database connection failed during update, try again\<close>; an integrity error gives
    \<open>ConstraintViolation\<close>, a data error \<open>InvalidData\<close>, a programming error
    \<open>QueryError\<close>, each with a message that ends with the original text.
  \<^item> \<open>execute_many\<close>, on a non-empty list: a pool error gives
    \<^verbatim>\<open>Connection pool exhausted\<close>; an operational error gives \<open>ConnectionFailure\<close>, an
    integrity error \<open>ConstraintViolation\<close>, a data error \<open>InvalidData\<close>, a programming
    error \<open>QueryError\<close>, a \<^verbatim>\<open>TypeError\<close> or \<^verbatim>\<open>ValueError\<close> \<open>InvalidParameters\<close>, each
    with a message that ends with the original text.
  Nothing is said of the other exceptions in \<open>execute_update\<close> and \<open>execute_many\<close>.
  When \<^verbatim>\<open>getconn\<close> or \<^verbatim>\<open>cursor\<close> raises a pool error or an operational error,
  \<open>execute_update\<close> and \<open>execute_many\<close> raise \<^verbatim>\<open>Connection pool exhausted\<close> or
  \<^verbatim>\<open>Database initial connection failed, try again\<close>. Whenever the release succeeds,
  an exception that leaves \<open>execute_query\<close> is a plain one with one of the seven kinds.
  No failure is swallowed: an operation returns a value only if every call that it made
  on the pool, the connection and the cursor has returned. The four fixed messages have
  the kinds \<open>PoolExhausted\<close> and \<open>ConnectionFailure\<close>.
\<close>

theorem failures_classified:
  "(on_getconn d_q = Inr c_q \<and> on_cursor d_q = Inr () \<and> on_putconn d_q = Inr () \<and>
    (on_execute d_q = Inl e_q \<or>
     on_execute d_q = Inr () \<and>
       (on_fetchall d_q = Inl e_q \<or>
        (\<exists>rows. on_fetchall d_q = Inr rows) \<and> on_close d_q = Inl e_q)) \<longrightarrow>
    (case e_q of
       PoolError t \<Rightarrow>
         fst (execute_query d_q s_q p_q) = Inl (PyException ''Connection pool exhausted'')
     | OperationalError t \<Rightarrow>
         fst (execute_query d_q s_q p_q) =
           Inl (PyException ''Database connection failed during query, try again'')
     | ProgrammingError t \<Rightarrow>
         (\<exists>m. fst (execute_query d_q s_q p_q) = Inl (PyException m) \<and>
            error_kind (PyException m) = Some QueryError \<and> suffix t m)
     | IntegrityError t \<Rightarrow>
         (\<exists>m. fst (execute_query d_q s_q p_q) = Inl (PyException m) \<and>
            error_kind (PyException m) = Some ConstraintViolation \<and> suffix t m)
     | _ \<Rightarrow>
         (\<exists>m. fst (execute_query d_q s_q p_q) = Inl (PyException m) \<and>
            error_kind (PyException m) = Some Unexpected \<and> suffix (str e_q) m))) \<and>
   (on_getconn d_u = Inr c_u \<and> on_cursor d_u = Inr () \<and> on_rollback d_u = Inr () \<and>
    on_putconn d_u = Inr () \<and>
    (on_execute d_u = Inl e_u \<or>
     on_execute d_u = Inr () \<and>
       (on_commit d_u = Inl e_u \<or> on_commit d_u = Inr () \<and> on_close d_u = Inl e_u)) \<longrightarrow>
    (case e_u of
       PoolError t \<Rightarrow>
         fst (execute_update d_u s_u p_u) = Inl (PyException ''Connection pool exhausted'')
     | OperationalError t \<Rightarrow>
         fst (execute_update d_u s_u p_u) =
           Inl (PyException ''Database connection failed during update, try again'')
     | IntegrityError t \<Rightarrow>
         (\<exists>m. fst (execute_update d_u s_u p_u) = Inl (PyException m) \<and>
            error_kind (PyException m) = Some ConstraintViolation \<and> suffix t m)
     | DataError t \<Rightarrow>
         (\<exists>m. fst (execute_update d_u s_u p_u) = Inl (PyException m) \<and>
            error_kind (PyException m) = Some InvalidData \<and> suffix t m)
     | ProgrammingError t \<Rightarrow>
         (\<exists>m. fst (execute_update d_u s_u p_u) = Inl (PyException m) \<and>
            error_kind (PyException m) = Some QueryError \<and> suffix t m)
     | _ \<Rightarrow> True)) \<and>
   (on_getconn d_b = Inr c_b \<and> on_cursor d_b = Inr () \<and> on_rollback d_b = Inr () \<and>
    on_putconn d_b = Inr () \<and> p_b \<noteq> [] \<and>
    (on_executemany d_b = Inl e_b \<or>
     on_executemany d_b = Inr () \<and>
       (on_commit d_b = Inl e_b \<or> on_commit d_b = Inr () \<and> on_close d_b = Inl e_b)) \<longrightarrow>
    (case e_b of
       PoolError t \<Rightarrow>
         fst (execute_many d_b s_b p_b) = Inl (PyException ''Connection pool exhausted'')
     | OperationalError t \<Rightarrow>
         (\<exists>m. fst (execute_many d_b s_b p_b) = Inl (PyException m) \<and>
            error_kind (PyException m) = Some ConnectionFailure \<and> suffix t m)
     | IntegrityError t \<Rightarrow>
         (\<exists>m. fst (execute_many d_b s_b p_b) = Inl (PyException m) \<and>
            error_kind (PyException m) = Some ConstraintViolation \<and> suffix t m)
     | DataError t \<Rightarrow>
         (\<exists>m. fst (execute_many d_b s_b p_b) = Inl (PyException m) \<and>
            error_kind (PyException m) = Some InvalidData \<and> suffix t m)
     | ProgrammingError t \<Rightarrow>
         (\<exists>m. fst (execute_many d_b s_b p_b) = Inl (PyException m) \<and>
            error_kind (PyException m) = Some QueryError \<and> suffix t m)
     | TypeError t \<Rightarrow>
         (\<exists>m. fst (execute_many d_b s_b p_b) = Inl (PyException m) \<and>
            error_kind (PyException m) = Some InvalidParameters \<and> suffix t m)
     | ValueError t \<Rightarrow>
         (\<exists>m. fst (execute_many d_b s_b p_b) = Inl (PyException m) \<and>
            error_kind (PyException m) = Some InvalidParameters \<and> suffix t m)
     | _ \<Rightarrow> True)) \<and>
   (on_getconn d_a = Inl x_a \<or> on_getconn d_a = Inr c_a \<and> on_cursor d_a = Inl x_a \<longrightarrow>
    (case x_a of
       PoolError t \<Rightarrow>
         fst (execute_update d_a s_a p_a) = Inl (PyException ''Connection pool exhausted'') \<and>
         (l_a \<noteq> [] \<longrightarrow>
            fst (execute_many d_a s_a l_a) = Inl (PyException ''Connection pool exhausted''))
     | OperationalError t \<Rightarrow>
         fst (execute_update d_a s_a p_a) =
           Inl (PyException ''Database initial connection failed, try again'') \<and>
         (l_a \<noteq> [] \<longrightarrow>
            fst (execute_many d_a s_a l_a) =
              Inl (PyException ''Database initial connection failed, try again''))
     | _ \<Rightarrow> True)) \<and>
   (on_putconn d_x = Inr () \<and> fst (execute_query d_x s_x p_x) = Inl x_x \<longrightarrow>
    (\<exists>m k. x_x = PyException m \<and> error_kind (PyException m) = Some k)) \<and>
   (fst (execute_query d_r s_r p_r) = Inr rows_r \<longrightarrow>
    (\<exists>c. on_getconn d_r = Inr c) \<and> on_cursor d_r = Inr () \<and> on_execute d_r = Inr () \<and>
    on_fetchall d_r = Inr rows_r \<and> on_close d_r = Inr () \<and> on_putconn d_r = Inr ()) \<and>
   (fst (execute_update d_v s_v p_v) = Inr n_v \<longrightarrow>
    (\<exists>c. on_getconn d_v = Inr c) \<and> on_cursor d_v = Inr () \<and> on_execute d_v = Inr () \<and>
    on_commit d_v = Inr () \<and> on_close d_v = Inr () \<and> on_putconn d_v = Inr ()) \<and>
   (fst (execute_many d_w s_w p_w) = Inr n_w \<longrightarrow>
    p_w \<noteq> [] \<and> (\<exists>c. on_getconn d_w = Inr c) \<and> on_cursor d_w = Inr () \<and>
    on_executemany d_w = Inr () \<and> on_commit d_w = Inr () \<and> on_close d_w = Inr () \<and>
    on_putconn d_w = Inr ()) \<and>
   error_kind (PyException ''Connection pool exhausted'') = Some PoolExhausted \<and>
   error_kind (PyException ''Database initial connection failed, try again'') =
     Some ConnectionFailure \<and>
   error_kind (PyException ''Database connection failed during query, try again'') =
     Some ConnectionFailure \<and>
   error_kind (PyException ''Database connection failed during update, try again'') =
     Some ConnectionFailure"
  by (intro conjI)
     (rule classified_query classified_update classified_batch classified_acquisition
        classified_any_query nothing_swallowed_query nothing_swallowed_update
        nothing_swallowed_batch | simp add: kind_simps)+


theorem failures_classified_witness:
  "(\<exists>m. fst (execute_query integrity_driver ''SELECT 1'' None) = Inl (PyException m) \<and>
      error_kind (PyException m) = Some ConstraintViolation \<and> suffix ''Duplicate key'' m) \<and>
   (\<exists>m. fst (execute_update integrity_driver ''INSERT INTO users VALUES (%s)''
             (Some [VInt 1])) = Inl (PyException m) \<and>
      error_kind (PyException m) = Some ConstraintViolation \<and> suffix ''Duplicate key'' m) \<and>
   (\<exists>m. fst (execute_many integrity_driver ''INSERT INTO users VALUES (%s)''
             [[VStr ''invalid'']]) = Inl (PyException m) \<and>
      error_kind (PyException m) = Some InvalidData \<and> suffix ''Invalid data type'' m) \<and>
   fst (execute_update pool_exhausted_driver ''INSERT INTO users VALUES (%s)''
          (Some [VInt 1])) = Inl (PyException ''Connection pool exhausted'') \<and>
   fst (execute_many pool_exhausted_driver ''INSERT INTO users VALUES (%s)''
          [[VStr ''invalid'']]) = Inl (PyException ''Connection pool exhausted'') \<and>
   (\<exists>k. error_kind (PyException ''Data Constraint violation: Duplicate key'') = Some k) \<and>
   fst (execute_query ok_driver ''SELECT 1'' None) = Inr [[VStr ''result1''], [VStr ''result2'']] \<and>
   on_fetchall ok_driver = Inr [[VStr ''result1''], [VStr ''result2'']] \<and>
   fst (execute_update ok_driver ''INSERT INTO users VALUES (%s)'' (Some [VInt 1])) = Inr 5 \<and>
   on_commit ok_driver = Inr () \<and>
   fst (execute_many ok_driver ''INSERT INTO users VALUES (%s)'' [[VStr ''invalid'']]) = Inr 5 \<and>
   on_executemany ok_driver = Inr ()"
proof -
  note t = failures_classified [where d_q = integrity_driver and c_q = 7
      and e_q = "IntegrityError ''Duplicate key''" and s_q = "''SELECT 1''" and p_q = None
      and d_u = integrity_driver and c_u = 7 and e_u = "IntegrityError ''Duplicate key''"
      and s_u = "''INSERT INTO users VALUES (%s)''" and p_u = "Some [VInt 1]"
      and d_b = integrity_driver and c_b = 7 and e_b = "DataError ''Invalid data type''"
      and s_b = "''INSERT INTO users VALUES (%s)''" and p_b = "[[VStr ''invalid'']]"
      and d_a = pool_exhausted_driver and x_a = "PoolError ''connection pool exhausted''"
      and c_a = 7 and s_a = "''INSERT INTO users VALUES (%s)''" and p_a = "Some [VInt 1]"
      and l_a = "[[VStr ''invalid'']]"
      and d_x = integrity_driver and s_x = "''SELECT 1''" and p_x = None
      and x_x = "PyException ''Data Constraint violation: Duplicate key''"
      and d_r = ok_driver and s_r = "''SELECT 1''" and p_r = None
      and rows_r = "[[VStr ''result1''], [VStr ''result2'']]"
      and d_v = ok_driver and s_v = "''INSERT INTO users VALUES (%s)''"
      and p_v = "Some [VInt 1]" and n_v = 5
      and d_w = ok_driver and s_w = "''INSERT INTO users VALUES (%s)''"
      and p_w = "[[VStr ''invalid'']]" and n_w = 5]
  have q: "\<exists>m. fst (execute_query integrity_driver ''SELECT 1'' None) = Inl (PyException m) \<and>
      error_kind (PyException m) = Some ConstraintViolation \<and> suffix ''Duplicate key'' m"
  proof -
    have "on_getconn integrity_driver = Inr 7 \<and> on_cursor integrity_driver = Inr () \<and>
      on_putconn integrity_driver = Inr () \<and>
      (on_execute integrity_driver = Inl (IntegrityError ''Duplicate key'') \<or>
       on_execute integrity_driver = Inr () \<and>
         (on_fetchall integrity_driver = Inl (IntegrityError ''Duplicate key'') \<or>
          (\<exists>rows. on_fetchall integrity_driver = Inr rows) \<and>
          on_close integrity_driver = Inl (IntegrityError ''Duplicate key'')))"
      by (simp add: integrity_driver_def ok_driver_def)
    from t [THEN conjunct1, THEN mp, OF this] show ?thesis by simp
  qed
  have u: "\<exists>m. fst (execute_update integrity_driver ''INSERT INTO users VALUES (%s)''
             (Some [VInt 1])) = Inl (PyException m) \<and>
      error_kind (PyException m) = Some ConstraintViolation \<and> suffix ''Duplicate key'' m"
  proof -
    have "on_getconn integrity_driver = Inr 7 \<and> on_cursor integrity_driver = Inr () \<and>
      on_rollback integrity_driver = Inr () \<and> on_putconn integrity_driver = Inr () \<and>
      (on_execute integrity_driver = Inl (IntegrityError ''Duplicate key'') \<or>
       on_execute integrity_driver = Inr () \<and>
         (on_commit integrity_driver = Inl (IntegrityError ''Duplicate key'') \<or>
          on_commit integrity_driver = Inr () \<and>
          on_close integrity_driver = Inl (IntegrityError ''Duplicate key'')))"
      by (simp add: integrity_driver_def ok_driver_def)
    from t [THEN conjunct2, THEN conjunct1, THEN mp, OF this] show ?thesis by simp
  qed
  have b: "\<exists>m. fst (execute_many integrity_driver ''INSERT INTO users VALUES (%s)''
             [[VStr ''invalid'']]) = Inl (PyException m) \<and>
      error_kind (PyException m) = Some InvalidData \<and> suffix ''Invalid data type'' m"
  proof -
    have "on_getconn integrity_driver = Inr 7 \<and> on_cursor integrity_driver = Inr () \<and>
      on_rollback integrity_driver = Inr () \<and> on_putconn integrity_driver = Inr () \<and>
      [[VStr ''invalid'']] \<noteq> [] \<and>
      (on_executemany integrity_driver = Inl (DataError ''Invalid data type'') \<or>
       on_executemany integrity_driver = Inr () \<and>
         (on_commit integrity_driver = Inl (DataError ''Invalid data type'') \<or>
          on_commit integrity_driver = Inr () \<and>
          on_close integrity_driver = Inl (DataError ''Invalid data type'')))"
      by (simp add: integrity_driver_def ok_driver_def)
    from t [THEN conjunct2, THEN conjunct2, THEN conjunct1, THEN mp, OF this] show ?thesis by simp
  qed
  have a: "fst (execute_update pool_exhausted_driver ''INSERT INTO users VALUES (%s)''
          (Some [VInt 1])) = Inl (PyException ''Connection pool exhausted'') \<and>
     fst (execute_many pool_exhausted_driver ''INSERT INTO users VALUES (%s)''
          [[VStr ''invalid'']]) = Inl (PyException ''Connection pool exhausted'')"
  proof -
    have "on_getconn pool_exhausted_driver = Inl (PoolError ''connection pool exhausted'') \<or>
      on_getconn pool_exhausted_driver = Inr 7 \<and>
      on_cursor pool_exhausted_driver = Inl (PoolError ''connection pool exhausted'')"
      by (simp add: pool_exhausted_driver_def ok_driver_def)
    from t [THEN conjunct2, THEN conjunct2, THEN conjunct2, THEN conjunct1, THEN mp, OF this] show ?thesis by simp
  qed
  have x: "\<exists>k. error_kind (PyException ''Data Constraint violation: Duplicate key'') = Some k"
  proof -
    have "on_putconn integrity_driver = Inr () \<and>
      fst (execute_query integrity_driver ''SELECT 1'' None) =
        Inl (PyException ''Data Constraint violation: Duplicate key'')"
      by (simp add: op_defs integrity_driver_def ok_driver_def)
    from t [THEN conjunct2, THEN conjunct2, THEN conjunct2, THEN conjunct2, THEN conjunct1, THEN mp, OF this] show ?thesis by simp
  qed
  have r: "fst (execute_query ok_driver ''SELECT 1'' None) =
      Inr [[VStr ''result1''], [VStr ''result2'']]"
    by (simp add: op_defs ok_driver_def)
  have v: "fst (execute_update ok_driver ''INSERT INTO users VALUES (%s)'' (Some [VInt 1])) =
      Inr 5"
    by (simp add: op_defs ok_driver_def)
  have w: "fst (execute_many ok_driver ''INSERT INTO users VALUES (%s)''
      [[VStr ''invalid'']]) = Inr 5"
    by (simp add: op_defs ok_driver_def)
  from t [THEN conjunct2, THEN conjunct2, THEN conjunct2, THEN conjunct2, THEN conjunct2, THEN conjunct1, THEN mp, OF r]
  have r': "on_fetchall ok_driver = Inr [[VStr ''result1''], [VStr ''result2'']]" by simp
  from t [THEN conjunct2, THEN conjunct2, THEN conjunct2, THEN conjunct2, THEN conjunct2, THEN conjunct2, THEN conjunct1, THEN mp, OF v]
  have v': "on_commit ok_driver = Inr ()" by simp
  from t [THEN conjunct2, THEN conjunct2, THEN conjunct2, THEN conjunct2, THEN conjunct2, THEN conjunct2, THEN conjunct2, THEN conjunct1, THEN mp, OF w]
  have w': "on_executemany ok_driver = Inr ()" by simp
  from q u b a x r r' v v' w w' show ?thesis by (intro conjI) simp_all
qed

subsection \<open>The failure mapping of the read path\<close>

text \<open>
  C5, as stated, fails on the code. An integrity failure during \<open>execute_query\<close> has its
  own \<^verbatim>\<open>except\<close> clause and leaves the call with the kind \<open>ConstraintViolation\<close>, not
  \<open>Unexpected\<close>. And an exhausted pool leaves \<open>execute_query\<close> with the kind
  \<open>Unexpected\<close>: the helper has already turned the \<^verbatim>\<open>PoolError\<close> into a plain
  \<^verbatim>\<open>Exception\<close>, which only the last clause catches.
\<close>

theorem query_mapping_counterexample:
  "fst (execute_query integrity_driver ''SELECT 1'' None) =
     Inl (PyException ''Data Constraint violation: Duplicate key'') \<and>
   error_kind (PyException ''Data Constraint violation: Duplicate key'') =
     Some ConstraintViolation \<and>
   fst (execute_query pool_exhausted_driver ''SELECT 1'' None) =
     Inl (PyException ''Unexpected database error: Connection pool exhausted'') \<and>
   error_kind (PyException ''Unexpected database error: Connection pool exhausted'') =
     Some Unexpected"
  by (simp add: op_defs integrity_driver_def pool_exhausted_driver_def ok_driver_def
        kind_of_message_def)

text \<open>
  C5, amended. In every call of \<open>execute_query\<close> that has obtained its connection and
  cursor and whose release succeeds, an exception \<open>e\<close> leaving the \<^verbatim>\<open>try\<close> block is
  raised again as a plain \<^verbatim>\<open>Exception\<close> of the kind: \<open>ConnectionFailure\<close> for an
  operational error, \<open>QueryError\<close> for a programming error, \<open>ConstraintViolation\<close> for
  an integrity error, \<open>PoolExhausted\<close> for a pool error, and \<open>Unexpected\<close> for every
  other exception, whose message is then \<^verbatim>\<open>Unexpected database error: \<close> followed by
  the original text. Failures while the connection is being obtained are left out.
\<close>

theorem query_failure_mapping:
  assumes "on_getconn d = Inr c" and "on_cursor d = Inr ()" and "on_putconn d = Inr ()"
    and "fst (snd (query_body d query ps)) = Inl e"
  shows "\<exists>m. fst (execute_query d query ps) = Inl (PyException m) \<and>
           error_kind (PyException m) =
             Some (case e of
                     PoolError _ \<Rightarrow> PoolExhausted
                   | OperationalError _ \<Rightarrow> ConnectionFailure
                   | ProgrammingError _ \<Rightarrow> QueryError
                   | IntegrityError _ \<Rightarrow> ConstraintViolation
                   | _ \<Rightarrow> Unexpected) \<and>
           (error_kind (PyException m) = Some Unexpected \<longrightarrow>
              m = ''Unexpected database error: '' @ str e)"
proof -
  obtain e' where c: "query_except e = Some (False, e')" by (cases e) simp_all
  have r: "fst (execute_query d query ps) = Inl e'"
    unfolding execute_query_def using assms c
    by (intro try_except_finally_Inl [where rb = False]) simp_all
  from c show ?thesis unfolding r
    by (cases e) (auto simp del: append_Cons simp: kind_simps)
qed

theorem query_failure_mapping_witness:
  "on_getconn integrity_driver = Inr 7 \<and> on_cursor integrity_driver = Inr () \<and>
   on_putconn integrity_driver = Inr () \<and>
   fst (snd (query_body integrity_driver ''SELECT 1'' None)) =
     Inl (IntegrityError ''Duplicate key'') \<and>
   (\<exists>m. fst (execute_query integrity_driver ''SELECT 1'' None) = Inl (PyException m) \<and>
      error_kind (PyException m) = Some ConstraintViolation)"
proof -
  have h: "on_getconn integrity_driver = Inr 7" "on_cursor integrity_driver = Inr ()"
    "on_putconn integrity_driver = Inr ()"
    "fst (snd (query_body integrity_driver ''SELECT 1'' None)) =
       Inl (IntegrityError ''Duplicate key'')"
    by (simp_all add: op_defs integrity_driver_def ok_driver_def)
  from query_failure_mapping [OF h] h show ?thesis by auto
qed

section \<open>Properties of setup.py\<close>

subsection \<open>The catalog model\<close>

lemma pg_simps [simp]: "db_execute_query pg = pg_query" "db_execute_update pg = pg_update"
  by (simp_all add: pg_def)

lemma extends_refl [simp]: "extends s s"
  by (simp add: extends_def)

lemma extends_trans: "extends a b \<Longrightarrow> extends b c \<Longrightarrow> extends a c"
  unfolding extends_def by (meson subset_trans)

lemma extends_indexesD: "extends s s' \<Longrightarrow> n \<in> dom (indexes s) \<Longrightarrow> n \<in> dom (indexes s')"
  by (auto simp: extends_def)

lemma extends_constraintsD:
  "extends s s' \<Longrightarrow> k \<in> dom (constraints s) \<Longrightarrow> k \<in> dom (constraints s')"
  by (auto simp: extends_def)

lemma extends_tablesD: "extends s s' \<Longrightarrow> t \<in> dom (tables s) \<Longrightarrow> t \<in> dom (tables s')"
  by (auto simp: extends_def)

lemma extends_extensionD: "extends s s' \<Longrightarrow> extension s \<Longrightarrow> extension s'"
  by (auto simp: extends_def)

lemma pg_update_extends:
  assumes "\<And>t. q \<noteq> DropTable t"
  shows "extends s (snd (pg_update s q ps))"
  using assms
  by (cases q) (auto simp: pg_update_def extends_def split: sum.splits)

lemma not_available_message: "\<not> already_exists (OtherError ''extension vector is not available'')"
  by (simp add: already_exists_def lower_def lower_char_def sublist_code(3))


lemma table_exists_pg: "table_exists pg s t = Inr (VBool (t \<in> dom (tables s)))"
  by (auto simp: table_exists_def pg_query_def first_cell_def)

lemma constraint_exists_pg:
  "constraint_exists pg s t n = Inr (VBool ((t, n) \<in> dom (constraints s)))"
  by (auto simp: constraint_exists_def pg_query_def first_cell_def)

lemma then_do_Inr:
  "then_do m f = (Inr u, s') \<Longrightarrow> \<exists>s. m = (Inr (), s) \<and> f s = (Inr u, s')"
  by (cases m; cases "fst m") (auto simp: then_do_def)

lemma then_do_ok [simp]: "then_do (Inr u, s) f = f s"
  by (simp add: then_do_def)

subsection \<open>The steps of \<open>setup_all\<close> on a catalog that has everything\<close>

lemma setup_pgvector_id: "extension s \<Longrightarrow> setup_pgvector pg s = (Inr (), s)"
  by (simp add: setup_pgvector_def pg_update_def)

lemma create_table_id: "t \<in> dom (tables s) \<Longrightarrow> create_table pg t s = (Inr (), s)"
  by (simp add: create_table_def table_exists_pg)

lemma add_foreign_keys_loop_id:
  "\<forall>(t, c, n) \<in> set l. (t, n) \<in> dom (constraints s) \<Longrightarrow>
   add_foreign_keys_loop pg l s = (Inr (), s)"
  by (induction l) (auto simp: constraint_exists_pg)

lemma create_indexes_loop_id:
  "\<forall>(n, t, c) \<in> set l. n \<in> dom (indexes s) \<Longrightarrow> create_indexes_loop pg l s = s"
  by (induction l) (auto simp: pg_update_def)

lemma create_indexes_id:
  assumes "\<forall>(n, t, c) \<in> set plain_indexes. n \<in> dom (indexes s)"
    and "''idx_embeddings_vector'' \<in> dom (indexes s)"
  shows "create_indexes pg s = (Inr (), s)"
  using assms(2) by (auto simp: create_indexes_def create_indexes_loop_id [OF assms(1)] pg_update_def)

lemma setup_all_provisioned:
  assumes "provisioned s"
  shows "setup_all pg False response s = (Inr (), s)"
proof -
  from assms have e: "extension s" and t: "set required_tables \<subseteq> dom (tables s)"
    and f: "\<forall>(t, c, n) \<in> set foreign_keys. (t, n) \<in> dom (constraints s)"
    and i: "\<forall>(n, t, c) \<in> set plain_indexes. n \<in> dom (indexes s)"
    and v: "''idx_embeddings_vector'' \<in> dom (indexes s)"
    by (simp_all add: provisioned_def)
  from t have t': "''analysis_registry'' \<in> dom (tables s)" "''stg_rejects'' \<in> dom (tables s)"
    "''insights_cache'' \<in> dom (tables s)" "''query_history'' \<in> dom (tables s)" "''embeddings'' \<in> dom (tables s)"
    by (simp_all add: required_tables_def)
  show ?thesis
    by (simp add: setup_all_def setup_pgvector_id [OF e] create_analysis_registry_def
          create_stg_rejects_def create_insights_cache_def create_query_history_def
          create_embeddings_def create_table_id t' add_foreign_keys_def
          add_foreign_keys_loop_id [OF f] create_indexes_id [OF i v])
qed


subsection \<open>What the steps of \<open>setup_all\<close> leave behind when they succeed\<close>

lemma setup_pgvector_ok:
  "setup_pgvector pg s = (Inr (), s') \<Longrightarrow> extension s' \<and> extends s s'"
  by (auto simp: setup_pgvector_def pg_update_def extends_def not_available_message
           split: if_splits)

lemma create_table_ok:
  "create_table pg t s = (Inr (), s') \<Longrightarrow> t \<in> dom (tables s') \<and> extends s s'"
  by (auto simp: create_table_def table_exists_pg pg_update_def extends_def split: if_splits)

lemma add_foreign_keys_loop_ok:
  assumes "''analysis_registry'' \<in> dom (tables s)" and "\<forall>(t, c, n) \<in> set l. t \<in> dom (tables s)"
  shows "\<exists>s'. add_foreign_keys_loop pg l s = (Inr (), s') \<and> extends s s' \<and>
            (\<forall>(t, c, n) \<in> set l. (t, n) \<in> dom (constraints s'))"
  using assms
proof (induction l arbitrary: s)
  case Nil
  show ?case by simp
next
  case (Cons x l)
  obtain t c n where x: "x = (t, c, n)" by (cases x)
  from Cons.prems x have tt: "t \<in> dom (tables s)" by simp
  show ?case
  proof (cases "(t, n) \<in> dom (constraints s)")
    case True
    from Cons.IH [of s] Cons.prems obtain s' where
      r: "add_foreign_keys_loop pg l s = (Inr (), s')" and e: "extends s s'"
      and d: "\<forall>(t, c, n) \<in> set l. (t, n) \<in> dom (constraints s')"
      by auto
    from True e have "(t, n) \<in> dom (constraints s')" by (auto simp: extends_def)
    with r e d True x show ?thesis by (auto simp: constraint_exists_pg)
  next
    case False
    define s1 where "s1 = s\<lparr>constraints := (constraints s)((t, n) \<mapsto> ''analysis_registry'')\<rparr>"
    have u: "pg_update s (AddForeignKey t n c) None = (Inr (- 1), s1)"
      using False tt Cons.prems(1) by (auto simp: pg_update_def s1_def)
    have e1: "extends s s1" by (auto simp: extends_def s1_def)
    have "''analysis_registry'' \<in> dom (tables s1)" "\<forall>(t, c, n) \<in> set l. t \<in> dom (tables s1)"
      using Cons.prems by (auto simp: s1_def)
    from Cons.IH [OF this] obtain s' where
      r: "add_foreign_keys_loop pg l s1 = (Inr (), s')" and e: "extends s1 s'"
      and d: "\<forall>(t, c, n) \<in> set l. (t, n) \<in> dom (constraints s')"
      by auto
    have "(t, n) \<in> dom (constraints s1)" by (simp add: s1_def)
    with e have h: "(t, n) \<in> dom (constraints s')" by (auto simp: extends_def)
    from e1 e have "extends s s'" by (rule extends_trans)
    with r d h False x u show ?thesis by (auto simp: constraint_exists_pg)
  qed
qed

lemma create_indexes_loop_ok:
  assumes "\<forall>(n, t, c) \<in> set l. t \<in> dom (tables s)"
  shows "extends s (create_indexes_loop pg l s) \<and>
         (\<forall>(n, t, c) \<in> set l. n \<in> dom (indexes (create_indexes_loop pg l s)))"
  using assms
proof (induction l arbitrary: s)
  case Nil
  show ?case by simp
next
  case (Cons x l)
  obtain n t c where x: "x = (n, t, c)" by (cases x)
  define s1 where "s1 = snd (pg_update s (CreateIndex n t c) None)"
  from Cons.prems x have tt: "t \<in> dom (tables s)" by simp
  have e1: "extends s s1" unfolding s1_def by (rule pg_update_extends) simp
  have d1: "n \<in> dom (indexes s1)" using tt by (auto simp: s1_def pg_update_def)
  from e1 Cons.prems have "\<forall>(n, t, c) \<in> set l. t \<in> dom (tables s1)"
    using extends_tablesD by fastforce
  from Cons.IH [OF this]
  have e: "extends s1 (create_indexes_loop pg l s1)"
    and d: "\<forall>(n, t, c) \<in> set l. n \<in> dom (indexes (create_indexes_loop pg l s1))"
    by auto
  from d1 e have "n \<in> dom (indexes (create_indexes_loop pg l s1))"
    by (auto simp: extends_def)
  with d extends_trans [OF e1 e] x show ?case by (auto simp: s1_def)
qed

lemma create_indexes_ok:
  assumes "set required_tables \<subseteq> dom (tables s)" and "extension s"
    and "create_indexes pg s = (r, s')"
  shows "r = Inr () \<and> extends s s' \<and> (\<forall>(n, t, c) \<in> set plain_indexes. n \<in> dom (indexes s')) \<and>
         ''idx_embeddings_vector'' \<in> dom (indexes s')"
proof -
  define s1 where "s1 = create_indexes_loop pg plain_indexes s"
  from assms(1) have "\<forall>(n, t, c) \<in> set plain_indexes. t \<in> dom (tables s)"
    by (simp add: plain_indexes_def required_tables_def)
  from create_indexes_loop_ok [OF this]
  have e1: "extends s s1" and d1: "\<forall>(n, t, c) \<in> set plain_indexes. n \<in> dom (indexes s1)"
    by (simp_all add: s1_def)
  from assms(3) have r: "r = Inr ()" and s': "s' = snd (pg_update s1 CreateVectorIndex None)"
    by (auto simp: create_indexes_def s1_def)
  have e2: "extends s1 s'" unfolding s' by (rule pg_update_extends) simp
  from e1 assms(1,2) have "''embeddings'' \<in> dom (tables s1)" "extension s1"
    by (auto simp: extends_def required_tables_def)
  then have v: "''idx_embeddings_vector'' \<in> dom (indexes s')"
    by (auto simp: s' pg_update_def)
  from d1 e2 have "\<forall>(n, t, c) \<in> set plain_indexes. n \<in> dom (indexes s')"
    using extends_indexesD by blast
  with r v extends_trans [OF e1 e2] show ?thesis by simp
qed

lemma then_do_cong: "m = m' \<Longrightarrow> then_do m f = then_do m' f"
  by simp


lemma then_do_InrE:
  assumes "then_do m f = (Inr u, s')"
  obtains s where "m = (Inr (), s)" and "f s = (Inr u, s')"
  using then_do_Inr [OF assms] by blast

lemma run_steps:
  assumes "setup_all pg False response s0 = (Inr (), s1)"
  shows "\<exists>a b c d e f g.
    setup_pgvector pg s0 = (Inr (), a) \<and>
    create_table pg ''analysis_registry'' a = (Inr (), b) \<and>
    create_table pg ''stg_rejects'' b = (Inr (), c) \<and>
    create_table pg ''insights_cache'' c = (Inr (), d) \<and>
    create_table pg ''query_history'' d = (Inr (), e) \<and>
    create_table pg ''embeddings'' e = (Inr (), f) \<and>
    add_foreign_keys_loop pg foreign_keys f = (Inr (), g) \<and>
    create_indexes pg g = (Inr (), s1)"
  using assms
  unfolding setup_all_def create_analysis_registry_def create_stg_rejects_def
      create_insights_cache_def create_query_history_def create_embeddings_def
      add_foreign_keys_def if_False
  by (elim then_do_InrE) (intro exI conjI; assumption)


lemma setup_all_provisions:
  assumes "setup_all pg False response s0 = (Inr (), s1)"
  shows "provisioned s1"
proof -
  from run_steps [OF assms] obtain a b c d e f g where
    sa: "setup_pgvector pg s0 = (Inr (), a)"
    and sb: "create_table pg ''analysis_registry'' a = (Inr (), b)"
    and sc: "create_table pg ''stg_rejects'' b = (Inr (), c)"
    and sd: "create_table pg ''insights_cache'' c = (Inr (), d)"
    and se: "create_table pg ''query_history'' d = (Inr (), e)"
    and sf: "create_table pg ''embeddings'' e = (Inr (), f)"
    and sg: "add_foreign_keys_loop pg foreign_keys f = (Inr (), g)"
    and sh: "create_indexes pg g = (Inr (), s1)"
    by blast
  note oa = setup_pgvector_ok [OF sa] and ob = create_table_ok [OF sb]
    and oc = create_table_ok [OF sc] and od = create_table_ok [OF sd]
    and oe = create_table_ok [OF se] and of' = create_table_ok [OF sf]
  have ef: "extends e f" by (rule of' [THEN conjunct2])
  have df: "extends d f" by (rule extends_trans [OF oe [THEN conjunct2] ef])
  have cf: "extends c f" by (rule extends_trans [OF od [THEN conjunct2] df])
  have bf: "extends b f" by (rule extends_trans [OF oc [THEN conjunct2] cf])
  have af: "extends a f" by (rule extends_trans [OF ob [THEN conjunct2] bf])
  have xf: "extension f" by (rule extends_extensionD [OF af oa [THEN conjunct1]])
  have t1: "''analysis_registry'' \<in> dom (tables f)"
    by (rule extends_tablesD [OF bf ob [THEN conjunct1]])
  have t2: "''stg_rejects'' \<in> dom (tables f)"
    by (rule extends_tablesD [OF cf oc [THEN conjunct1]])
  have t3: "''insights_cache'' \<in> dom (tables f)"
    by (rule extends_tablesD [OF df od [THEN conjunct1]])
  have t4: "''query_history'' \<in> dom (tables f)"
    by (rule extends_tablesD [OF ef oe [THEN conjunct1]])
  have t5: "''embeddings'' \<in> dom (tables f)"
    by (rule of' [THEN conjunct1])
  have tf: "set required_tables \<subseteq> dom (tables f)"
    unfolding required_tables_def using t1 t2 t3 t4 t5 by simp
  have "\<forall>(t, c, n) \<in> set foreign_keys. t \<in> dom (tables f)"
    unfolding foreign_keys_def using t3 t4 t5 by simp
  from add_foreign_keys_loop_ok [OF t1 this] sg
  have eg: "extends f g"
    and cg: "\<forall>(t, c, n) \<in> set foreign_keys. (t, n) \<in> dom (constraints g)"
    by auto
  have xg: "extension g" by (rule extends_extensionD [OF eg xf])
  have tg: "set required_tables \<subseteq> dom (tables g)"
    using eg tf unfolding extends_def by blast
  from create_indexes_ok [OF tg xg sh]
  have e1: "extends g s1"
    and i1: "\<forall>(n, t, c) \<in> set plain_indexes. n \<in> dom (indexes s1)"
    and v1: "''idx_embeddings_vector'' \<in> dom (indexes s1)"
    by simp_all
  have x1: "extension s1" by (rule extends_extensionD [OF e1 xg])
  have ts: "set required_tables \<subseteq> dom (tables s1)"
    using e1 tg unfolding extends_def by blast
  have c1: "\<forall>(t, c, n) \<in> set foreign_keys. (t, n) \<in> dom (constraints s1)"
    using e1 cg extends_constraintsD by blast
  from x1 ts c1 i1 v1 show ?thesis
    unfolding provisioned_def by (intro conjI)
qed


subsection \<open>Running the setup twice\<close>

text \<open>
  C9. On the catalog model of the database: when \<open>setup_all\<close>, without dropping, has run
  from any catalog \<open>s0\<close> without raising and has left the catalog \<open>s1\<close>, a second run
  from \<open>s1\<close> raises nothing and leaves \<open>s1\<close> as it is. Every table and foreign key is
  found by its existence check and skipped, and the statements with
  \<^verbatim>\<open>IF NOT EXISTS\<close> find their objects: nothing is created twice.
\<close>

theorem setup_all_idempotent:
  assumes "setup_all pg False response s0 = (Inr (), s1)"
  shows "setup_all pg False response' s1 = (Inr (), s1)"
  by (rule setup_all_provisioned [OF setup_all_provisions [OF assms]])

theorem setup_all_idempotent_witness:
  "setup_all pg False [] fresh_catalog = (Inr (), provisioned_catalog) \<and>
   setup_all pg False [] provisioned_catalog = (Inr (), provisioned_catalog)"
proof -
  have h: "setup_all pg False [] fresh_catalog = (Inr (), provisioned_catalog)"
    by (simp add: setup_all_def setup_pgvector_def create_analysis_registry_def
          create_stg_rejects_def create_insights_cache_def create_query_history_def
          create_embeddings_def create_table_def table_exists_def pg_query_def pg_update_def
          first_cell_def add_foreign_keys_def foreign_keys_def constraint_exists_def
          create_indexes_def plain_indexes_def fresh_catalog_def provisioned_catalog_def
          cong: then_do_cong)
  from h setup_all_idempotent [OF h] show ?thesis by simp
qed

subsection \<open>The verdict of \<open>verify_setup\<close>\<close>

lemma add_line_fst [simp]: "fst (add_line l m) = fst m"
  by (simp add: add_line_def)

lemma verify_tables_True:
  "fst (verify_tables db s ts g) = Inr True \<longleftrightarrow>
     g \<and> (\<forall>t \<in> set ts. (\<exists>v. table_exists db s t = Inr v \<and> truthy v) \<and>
                         (\<exists>n. count_rows db s t = Inr n))"
proof (induction ts arbitrary: g)
  case Nil
  show ?case by simp
next
  case (Cons t ts)
  show ?case
  proof (cases "table_exists db s t")
    case (Inl e)
    then show ?thesis by simp
  next
    case (Inr v)
    note v = this
    show ?thesis
    proof (cases "truthy v")
      case False
      with v show ?thesis by (simp add: Cons.IH)
    next
      case True
      with v show ?thesis
        by (cases "count_rows db s t") (simp_all add: Cons.IH)
    qed
  qed
qed

lemma verify_setup_fst:
  "fst (verify_setup db s) = fst (verify_tables db s required_tables True)"
  by (cases "verify_tables db s required_tables True"; cases "fst (verify_tables db s required_tables True)")
     (simp_all add: verify_setup_def)

lemma verify_tables_cong:
  assumes "\<forall>q ps. q \<noteq> VectorInstalledQuery \<longrightarrow>
             db_execute_query db' s q ps = db_execute_query db s q ps"
  shows "verify_tables db' s ts g = verify_tables db s ts g"
proof -
  have t: "table_exists db' s t = table_exists db s t" for t
    using assms by (simp add: table_exists_def)
  have c: "count_rows db' s t = count_rows db s t" for t
    using assms by (simp add: count_rows_def)
  show ?thesis
    by (induction ts arbitrary: g) (simp_all add: t c cong: sum.case_cong if_cong)
qed

lemma truthy_iff: "truthy v \<longleftrightarrow> v \<noteq> VNone \<and> v \<noteq> VBool False \<and> v \<noteq> VInt 0 \<and> v \<noteq> VStr []"
  by (cases v) auto

lemma first_cell_Inr: "first_cell result = Inr v \<longleftrightarrow> (\<exists>r rs. result = (v # r) # rs)"
  by (auto simp: first_cell_def split: list.splits)

lemma table_exists_handle:
  "(\<exists>v. table_exists db s t = Inr v \<and> truthy v) \<longleftrightarrow>
   (\<exists>v r rs. db_execute_query db s TableExistsQuery (Some [VStr t]) = Inr ((v # r) # rs) \<and>
      v \<noteq> VNone \<and> v \<noteq> VBool False \<and> v \<noteq> VInt 0 \<and> v \<noteq> VStr [])"
proof (cases "db_execute_query db s TableExistsQuery (Some [VStr t])")
  case (Inl e)
  then show ?thesis by (simp add: table_exists_def)
next
  case (Inr result)
  then show ?thesis
    by (simp add: table_exists_def first_cell_Inr truthy_iff)
qed

lemma count_rows_handle:
  "(\<exists>n. count_rows db s t = Inr n) \<longleftrightarrow>
   (\<exists>n r rs. db_execute_query db s (CountQuery t) None = Inr ((n # r) # rs))"
proof (cases "db_execute_query db s (CountQuery t) None")
  case (Inl e)
  then show ?thesis by (simp add: count_rows_def)
next
  case (Inr result)
  then show ?thesis
    by (simp add: count_rows_def first_cell_Inr)
qed

text \<open>
  C10. \<open>verify_setup\<close> returns \<^verbatim>\<open>True\<close> if and only if, for each of the five tables
  \<^verbatim>\<open>analysis_registry\<close>, \<^verbatim>\<open>stg_rejects\<close>, \<^verbatim>\<open>insights_cache\<close>, \<^verbatim>\<open>query_history\<close> and
  \<^verbatim>\<open>embeddings\<close>, the handle answers the existence query for that table with rows
  whose first cell is a true value, and answers the query \<^verbatim>\<open>SELECT COUNT(*)\<close> on that
  table, without raising, with rows whose first cell can be read. And the verdict does
  not depend on the check of the extension: two handles that agree on every query but
  \<open>VectorInstalledQuery\<close> (which may succeed, answer no, or raise) give the same
  result.
\<close>

theorem verify_setup_verdict:
  "(fst (verify_setup db s) = Inr True \<longleftrightarrow>
      (\<forall>t \<in> {''analysis_registry'', ''stg_rejects'', ''insights_cache'', ''query_history'',
              ''embeddings''}.
         (\<exists>v r rs. db_execute_query db s TableExistsQuery (Some [VStr t]) = Inr ((v # r) # rs) \<and>
            v \<noteq> VNone \<and> v \<noteq> VBool False \<and> v \<noteq> VInt 0 \<and> v \<noteq> VStr []) \<and>
         (\<exists>n r rs. db_execute_query db s (CountQuery t) None = Inr ((n # r) # rs)))) \<and>
   ((\<forall>q ps. q \<noteq> VectorInstalledQuery \<longrightarrow>
        db_execute_query db' s q ps = db_execute_query db s q ps) \<longrightarrow>
    fst (verify_setup db' s) = fst (verify_setup db s))"
proof -
  have s: "set required_tables = {''analysis_registry'', ''stg_rejects'', ''insights_cache'',
      ''query_history'', ''embeddings''}"
    by (simp add: required_tables_def)
  show ?thesis
    unfolding verify_setup_fst s [symmetric]
    using verify_tables_True [of db s required_tables True]
      verify_tables_cong [of db' s db required_tables True]
    by (simp add: table_exists_handle count_rows_handle)
qed


theorem verify_setup_verdict_witness:
  "fst (verify_setup pg provisioned_catalog) = Inr True \<and>
   fst (verify_setup no_vector_check provisioned_catalog) = Inr True \<and>
   snd (verify_setup no_vector_check provisioned_catalog) \<noteq>
     snd (verify_setup pg provisioned_catalog) \<and>
   db_execute_query no_count_check provisioned_catalog (CountQuery ''embeddings'') None =
     Inl (PyException ''Query error: permission denied for table embeddings'') \<and>
   fst (verify_setup no_count_check provisioned_catalog) \<noteq> Inr True \<and>
   fst (verify_setup no_count_check provisioned_catalog) = Inr False \<and>
   fst (verify_setup pg fresh_catalog) = Inr False"
proof -
  have a: "\<forall>t \<in> {''analysis_registry'', ''stg_rejects'', ''insights_cache'', ''query_history'',
              ''embeddings''}.
         (\<exists>v r rs. db_execute_query pg provisioned_catalog TableExistsQuery (Some [VStr t]) =
              Inr ((v # r) # rs) \<and>
            v \<noteq> VNone \<and> v \<noteq> VBool False \<and> v \<noteq> VInt 0 \<and> v \<noteq> VStr []) \<and>
         (\<exists>n r rs. db_execute_query pg provisioned_catalog (CountQuery t) None =
              Inr ((n # r) # rs))"
    by (simp add: pg_query_def provisioned_catalog_def)
  have b: "\<forall>q ps. q \<noteq> VectorInstalledQuery \<longrightarrow>
        db_execute_query no_vector_check provisioned_catalog q ps =
        db_execute_query pg provisioned_catalog q ps"
    by (simp add: no_vector_check_def)
  have c: "db_execute_query no_count_check provisioned_catalog (CountQuery ''embeddings'') None =
     Inl (PyException ''Query error: permission denied for table embeddings'')"
    by (simp add: no_count_check_def)
  note t = verify_setup_verdict [of pg provisioned_catalog no_vector_check]
  note u = verify_setup_verdict [of no_count_check provisioned_catalog no_count_check, THEN conjunct1]
  from t a have r: "fst (verify_setup pg provisioned_catalog) = Inr True" by blast
  from t b r have r': "fst (verify_setup no_vector_check provisioned_catalog) = Inr True"
    by simp
  have n: "fst (verify_setup no_count_check provisioned_catalog) \<noteq> Inr True"
  proof
    assume "fst (verify_setup no_count_check provisioned_catalog) = Inr True"
    with u have "\<exists>n r rs. db_execute_query no_count_check provisioned_catalog
        (CountQuery ''embeddings'') None = Inr ((n # r) # rs)"
      by simp
    with c show False by simp
  qed
  have "last (snd (verify_setup no_vector_check provisioned_catalog)) \<noteq>
        last (snd (verify_setup pg provisioned_catalog))"
    by (simp add: verify_setup_def required_tables_def table_exists_def count_rows_def
          pg_query_def first_cell_def provisioned_catalog_def no_vector_check_def
          vector_report_def add_line_def pg_def)
  then have d: "snd (verify_setup no_vector_check provisioned_catalog) \<noteq>
        snd (verify_setup pg provisioned_catalog)" by metis
  have f: "fst (verify_setup no_count_check provisioned_catalog) = Inr False"
    by (simp add: verify_setup_fst required_tables_def table_exists_def count_rows_def
          pg_query_def first_cell_def provisioned_catalog_def no_count_check_def pg_def)
  have g: "fst (verify_setup pg fresh_catalog) = Inr False"
    by (simp add: verify_setup_fst required_tables_def table_exists_def count_rows_def
          pg_query_def first_cell_def fresh_catalog_def)
  from r r' d c n f g show ?thesis by (intro conjI)
qed

end
